theory Spec2Isabelle
  imports Complex_Main "HOL-Library.Word" "HOL-Library.Sublist" "HOL-Library.Monad_Syntax"
    "HOL-Library.Log_Nat"
begin

section \<open>The MT4 bridge Expert Advisor\<close>

text \<open>
  The repository holds two versions of one Expert Advisor: the older
  \<^verbatim>\<open>mt4/Expert Advisor.mq4\<close> (suffix \<open>_v1\<close> below) and a later revision whose header
  lists its fixes (suffix \<open>_v2\<close>). A function that is the same in both, up to \<^verbatim>\<open>Print\<close>
  calls, is modelled once.

  Conventions of the embedding.
  \<^item> MQL4 \<^verbatim>\<open>int\<close> is a 32-bit and \<^verbatim>\<open>datetime\<close> a 64-bit integer. Tickets, counts and
    positions in strings are only compared, copied or stepped by one far inside their
    range, so they are \<open>int\<close> (\<open>nat\<close> for the tick counter, which starts at 0 and is only
    incremented or reset). \<^verbatim>\<open>GetTickCount()\<close> is a 32-bit unsigned reading, a \<open>32 word\<close>;
    subtracting a \<^verbatim>\<open>datetime\<close> from it is done in 64 bits and cannot overflow.
  \<^item> \<^verbatim>\<open>double\<close> is the type \<open>double\<close> defined first: the binary64 numbers, with every
    sum, difference and product rounded to the nearest of them.
  \<^item> The terminal log written by \<^verbatim>\<open>Print\<close> is not part of the state. Where the source
    returns after printing a reason, the model returns that reason as a value.
  \<^item> Each answer of the host (clock readings, quotes, order pools, HTTP results) is an
    argument of the function that asks for it.
\<close>

subsection \<open>Double-precision numbers\<close>

text \<open>
  An MQL4 \<^verbatim>\<open>double\<close> is an IEEE 754 binary64 number: 0, or \<open>m\<close> times \<open>2\<close> to the power
  \<open>e - 52\<close> with an integer \<open>m\<close> of magnitude below \<open>2\<close> to the power 53 and an exponent
  \<open>e\<close> of at least \<open>-1022\<close>. A sum, difference or product is the exact result rounded to
  the nearest such number, to the one with the even \<open>m\<close> when two are equally near.

  \<open>pow2 e\<close> is 2 to the power \<open>e\<close>, and \<open>floor_log2 x\<close> is the exponent of the power of 2
  at or next below the magnitude of a non-zero \<open>x\<close>, computed from the bit length of an
  integer.
\<close>

definition pow2 :: "int \<Rightarrow> real" where
  "pow2 e = (if 0 \<le> e then 2 ^ nat e else 1 / 2 ^ nat (- e))"

definition floor_log2 :: "real \<Rightarrow> int" where
  "floor_log2 x =
     (if 1 \<le> \<bar>x\<bar> then bitlen \<lfloor>\<bar>x\<bar>\<rfloor> - 1
      else - bitlen (\<lceil>1 / \<bar>x\<bar>\<rceil> - 1))"

definition round_half_even :: "real \<Rightarrow> int" where
  "round_half_even x =
     (let n = \<lfloor>x\<rfloor>; r = x - of_int n
      in if r < 1 / 2 then n
         else if 1 / 2 < r then n + 1
         else if even n then n else n + 1)"

text \<open>
  Rounding to binary64: the spacing of the numbers around \<open>x\<close> is 2 to the power
  \<open>floor_log2 x - 52\<close>, and 2 to the power \<open>-1074\<close> below the smallest normal number.
\<close>

definition round_double :: "real \<Rightarrow> real" where
  "round_double x =
     (if x = 0 then 0
      else
        (let ulp = pow2 (max (floor_log2 x) (- 1022) - 52)
         in of_int (round_half_even (x / ulp)) * ulp))"

text \<open>
  The type of the numbers that rounding produces. Its exponents have no upper end: a
  result whose magnitude reaches 2 to the power 1024, where binary64 has an infinity,
  and a host that hands the program an infinity or a NaN are not covered. The two zeros
  of binary64 compare equal and are one value here.
\<close>

typedef double = "range round_double"
  morphisms real_of_double Abs_double
  by blast

setup_lifting type_definition_double

text \<open>
  The \<^verbatim>\<open>double\<close> a decimal literal or a quote stands for, and the conversion of an
  \<^verbatim>\<open>int\<close> operand, which is exact for every integer of magnitude below 2 to the
  power 53 and so for every \<^verbatim>\<open>int\<close> of the program.
\<close>

lift_definition double_of_real :: "real \<Rightarrow> double" is round_double
  by simp

definition double_of_int :: "int \<Rightarrow> double" where
  "double_of_int i = double_of_real (of_int i)"

instantiation double :: "{zero, plus, minus, times, linorder}"
begin

lift_definition zero_double :: double is 0
  by (rule range_eqI [of _ _ 0]) (simp add: round_double_def)

lift_definition plus_double :: "double \<Rightarrow> double \<Rightarrow> double" is "\<lambda>a b. round_double (a + b)"
  by simp

lift_definition minus_double :: "double \<Rightarrow> double \<Rightarrow> double" is "\<lambda>a b. round_double (a - b)"
  by simp

lift_definition times_double :: "double \<Rightarrow> double \<Rightarrow> double" is "\<lambda>a b. round_double (a * b)"
  by simp

lift_definition less_eq_double :: "double \<Rightarrow> double \<Rightarrow> bool" is "(\<le>)" .

lift_definition less_double :: "double \<Rightarrow> double \<Rightarrow> bool" is "(<)" .

instance
  by standard (transfer; auto)+

end

subsection \<open>Host string functions\<close>

text \<open>
  \<^verbatim>\<open>StringLen\<close>, \<open>StringFind\<close> (from position 0; \<open>-1\<close> when the pattern does not occur)
  and \<^verbatim>\<open>StringSubstr\<close>. Following the MQL4 reference, \<^verbatim>\<open>StringSubstr\<close> with a length of
  0 (its default) or less extracts up to the end of the string, and a start position
  outside the string gives the empty string.
\<close>

definition StringLen :: "string \<Rightarrow> int" where
  "StringLen s = int (length s)"

fun StringFind_from :: "string \<Rightarrow> string \<Rightarrow> int \<Rightarrow> int" where
  "StringFind_from [] pat i = - 1"
| "StringFind_from (c # cs) pat i =
     (if take (length pat) (c # cs) = pat then i else StringFind_from cs pat (i + 1))"

definition StringFind :: "string \<Rightarrow> string \<Rightarrow> int" where
  "StringFind s pat = StringFind_from s pat 0"

definition StringSubstr :: "string \<Rightarrow> int \<Rightarrow> int \<Rightarrow> string" where
  "StringSubstr s start len =
     (if start < 0 \<or> StringLen s \<le> start then []
      else if len \<le> 0 then drop (nat start) s
      else take (nat len) (drop (nat start) s))"

subsection \<open>ExtractValue, older version\<close>

text \<open>
  The scanning loop of \<^verbatim>\<open>ExtractValue\<close> in \<^verbatim>\<open>mt4/Expert Advisor.mq4\<close>: \<open>end\<close> advances
  until a \<^verbatim>\<open>,\<close> or \<^verbatim>\<open>}\<close> outside a quoted string; a quote not preceded by a backslash
  toggles \<open>inString\<close>.
\<close>

function scan_end_v1 :: "string \<Rightarrow> int \<Rightarrow> bool \<Rightarrow> int" where
  \<open>scan_end_v1 json end inString =
     (if end < StringLen json then
        (if StringSubstr json end 1 = ''"'' \<and>
            (end = 0 \<or> StringSubstr json (end - 1) 1 \<noteq> [CHR 0x5C])
         then scan_end_v1 json (end + 1) (\<not> inString)
         else if \<not> inString \<and>
                 (StringSubstr json end 1 = '','' \<or> StringSubstr json end 1 = ''}'')
         then end
         else scan_end_v1 json (end + 1) inString)
      else end)\<close>
  by pat_completeness auto
termination
  by (relation "measure (\<lambda>(json, end, inString). nat (StringLen json - end))") auto

declare scan_end_v1.simps [simp del]

text \<open>
  In MQL4 \<^verbatim>\<open>StringTrimLeft\<close> and \<^verbatim>\<open>StringTrimRight\<close> return the trimmed copy and leave
  their argument alone. The source discards both results, so \<open>value\<close> reaches the quote
  test as extracted.
\<close>

definition ExtractValue_v1 :: "string \<Rightarrow> string \<Rightarrow> string" where
  \<open>ExtractValue_v1 json key =
     (let search = ''"'' @ key @ ''":'';
          start = StringFind json search
      in if start = - 1 then ''''
         else
           (let start = start + StringLen search;
                end = scan_end_v1 json start False;
                value = StringSubstr json start (end - start)
            in if StringSubstr value 0 1 = ''"'' \<and>
                  StringSubstr value (StringLen value - 1) 1 = ''"''
               then StringSubstr value 1 (StringLen value - 2)
               else value))\<close>

subsection \<open>ExtractValue, later version\<close>

text \<open>
  The later \<^verbatim>\<open>ExtractValue\<close> has three loops: it steps \<open>start\<close> over spaces and quotes,
  advances \<open>end\<close> to the first \<^verbatim>\<open>,\<close> or \<^verbatim>\<open>}\<close>, and then cuts spaces and quotes from the
  end of the extracted value. The last loop shortens \<open>value\<close> with
  \<^verbatim>\<open>StringSubstr(value, 0, StringLen(value) - 1)\<close>; on a value of length one that call
  returns the value itself, so the loop is modelled as a partial function and \<open>None\<close>
  stands for not returning.
\<close>

function skip_leading_v2 :: "string \<Rightarrow> int \<Rightarrow> int" where
  \<open>skip_leading_v2 json start =
     (if StringSubstr json start 1 = '' '' \<or> StringSubstr json start 1 = ''"''
      then skip_leading_v2 json (start + 1)
      else start)\<close>
  by pat_completeness auto
termination
  by (relation "measure (\<lambda>(json, start). nat (StringLen json - start))")
     (auto simp: StringSubstr_def split: if_splits)

declare skip_leading_v2.simps [simp del]

function scan_end_v2 :: "string \<Rightarrow> int \<Rightarrow> int" where
  \<open>scan_end_v2 json end =
     (if end < StringLen json then
        (if StringSubstr json end 1 = '','' \<or> StringSubstr json end 1 = ''}''
         then end
         else scan_end_v2 json (end + 1))
      else end)\<close>
  by pat_completeness auto
termination
  by (relation "measure (\<lambda>(json, end). nat (StringLen json - end))") auto

declare scan_end_v2.simps [simp del]

partial_function (option) trim_trailing_v2 :: "string \<Rightarrow> string option" where
  \<open>trim_trailing_v2 value =
     (if StringSubstr value (StringLen value - 1) 1 = '' '' \<or>
         StringSubstr value (StringLen value - 1) 1 = ''"''
      then trim_trailing_v2 (StringSubstr value 0 (StringLen value - 1))
      else Some value)\<close>

declare trim_trailing_v2.simps [code]

text \<open>
  When the key is not found the source searches a second time for the same token
  before it gives up.
\<close>

definition ExtractValue_v2 :: "string \<Rightarrow> string \<Rightarrow> string option" where
  \<open>ExtractValue_v2 json key =
     (let search = ''"'' @ key @ ''":'';
          start = StringFind json search;
          start = (if start = - 1 then StringFind json search else start)
      in if start = - 1 then Some ''''
         else
           (let start = skip_leading_v2 json (start + StringLen search);
                end = scan_end_v2 json start
            in trim_trailing_v2 (StringSubstr json start (end - start))))\<close>

subsection \<open>Configuration, host data and the global state\<close>

text \<open>The \<^verbatim>\<open>input\<close> parameters of the Expert Advisor.\<close>

record config =
  BackendURL :: string
  BackendAPIKey :: string
  Symbol :: string
  LotSize :: double
  MaxSpread :: int
  MaxPositions :: int
  Slippage :: int
  MagicNumber :: int
  EnableTrading :: bool

text \<open>
  The two globals that are set once and never assigned: the capacity of the tick
  buffer and the polling interval in milliseconds.
\<close>

definition tickBufferSize :: nat where
  "tickBufferSize = 500"

definition signalPollInterval :: int where
  "signalPollInterval = 500"

text \<open>
  An order as \<^verbatim>\<open>OrderSelect\<close> exposes it. An order pool (open trades or history) is a
  list in position order; \<open>None\<close> at a position means that \<^verbatim>\<open>OrderSelect\<close> returned false
  there.
\<close>

record order =
  OrderTicket :: int
  OrderSymbol :: string
  OrderMagicNumber :: int
  OrderClosePrice :: double
  OrderProfit :: double
  OrderCloseTime :: int

type_synonym order_pool = "order option list"

text \<open>
  The quotes \<^verbatim>\<open>MarketInfo\<close> returns for the configured symbol, and the predefined
  \<^verbatim>\<open>Point\<close>.
\<close>

record market =
  MODE_BID :: double
  MODE_ASK :: double
  MODE_SPREAD :: double
  Point :: double

text \<open>
  What one \<^verbatim>\<open>WebRequest\<close> call leaves behind: the value of \<^verbatim>\<open>GetLastError()\<close>, the
  status code and the bytes of the response body.
\<close>

record web_result =
  last_error :: int
  response_code :: int
  result_data :: string

text \<open>The global variables. The watermark \<open>lastLoggedTicket\<close> exists in the later version only.\<close>

record ea_state =
  lastSignalPoll :: int
  lastTickSend :: int
  tickData :: "string list"
  tickCount :: nat
  isConnected :: bool
  lastLoggedTicket :: int

definition initial_state :: ea_state where
  "initial_state =
     \<lparr>lastSignalPoll = 0, lastTickSend = 0, tickData = [], tickCount = 0,
      isConnected = False, lastLoggedTicket = 0\<rparr>"

subsection \<open>HTTP transport\<close>

text \<open>
  \<^verbatim>\<open>SendHttpRequest\<close> returns the empty string when \<^verbatim>\<open>GetLastError()\<close> is not 0 after the
  request, and otherwise the body converted by \<^verbatim>\<open>CharArrayToString\<close>, which stops at the
  first zero byte. The status code is printed and otherwise ignored. The argument is
  the host's answer; the request is a GET when the payload is empty, a POST otherwise.
\<close>

definition CharArrayToString :: "string \<Rightarrow> string" where
  "CharArrayToString bytes = takeWhile (\<lambda>c. c \<noteq> CHR 0x00) bytes"

definition SendHttpRequest :: "web_result \<Rightarrow> string" where
  "SendHttpRequest w =
     (if last_error w \<noteq> 0 then ''''
      else if 0 < length (result_data w) then CharArrayToString (result_data w)
      else '''')"

definition TestBackendConnection :: "web_result \<Rightarrow> bool" where
  "TestBackendConnection w =
     (let response = SendHttpRequest w
      in response \<noteq> '''' \<and> 0 \<le> StringFind response ''healthy'')"

subsection \<open>Tick collection and upload\<close>

text \<open>
  \<^verbatim>\<open>CollectTickData\<close>; \<open>tickJson\<close> is the string \<^verbatim>\<open>StringFormat\<close> builds from the quote.
  \<^verbatim>\<open>OnInit\<close> sizes the array to \<open>tickBufferSize\<close>, so the index is in range whenever the
  guard lets the write happen.
\<close>

definition CollectTickData :: "string \<Rightarrow> ea_state \<Rightarrow> ea_state" where
  "CollectTickData tickJson s =
     (if tickBufferSize \<le> tickCount s then s
      else s\<lparr>tickData := (tickData s)[tickCount s := tickJson],
             tickCount := tickCount s + 1\<rparr>)"

fun join_ticks :: "string list \<Rightarrow> string" where
  "join_ticks [] = ''''"
| "join_ticks [t] = t"
| "join_ticks (t # u # ts) = t @ '','' @ join_ticks (u # ts)"

definition ticks_payload :: "config \<Rightarrow> ea_state \<Rightarrow> string" where
  \<open>ticks_payload cfg s =
     ''{'' @ ''"symbol":"'' @ Symbol cfg @ ''",'' @ ''"ticks":['' @
     join_ticks (take (tickCount s) (tickData s)) @ '']}''\<close>

datatype flush_outcome = NothingToSend | UploadFailed string | Uploaded string

text \<open>
  \<^verbatim>\<open>SendTickData\<close>: \<open>upload\<close> is the host's answer to the POST and \<open>clock\<close> the reading of
  \<^verbatim>\<open>GetTickCount()\<close> stored after a successful upload.
\<close>

definition SendTickData ::
  "config \<Rightarrow> web_result \<Rightarrow> 32 word \<Rightarrow> ea_state \<Rightarrow> ea_state \<times> flush_outcome" where
  "SendTickData cfg upload clock s =
     (if tickCount s = 0 then (s, NothingToSend)
      else
        (let payload = ticks_payload cfg s;
             response = SendHttpRequest upload
         in if response \<noteq> ''''
            then (s\<lparr>tickCount := 0, lastTickSend := uint clock\<rparr>, Uploaded payload)
            else (s, UploadFailed payload)))"

subsection \<open>Signal validation\<close>

fun CountOpenPositions_loop :: "config \<Rightarrow> order_pool \<Rightarrow> int \<Rightarrow> int" where
  "CountOpenPositions_loop cfg [] count = count"
| "CountOpenPositions_loop cfg (None # os) count = CountOpenPositions_loop cfg os count"
| "CountOpenPositions_loop cfg (Some ord # os) count =
     CountOpenPositions_loop cfg os
       (if OrderSymbol ord = Symbol cfg \<and> OrderMagicNumber ord = MagicNumber cfg
        then count + 1 else count)"

text \<open>The loop runs from the last position of the pool down to position 0.\<close>

definition CountOpenPositions :: "config \<Rightarrow> order_pool \<Rightarrow> int" where
  "CountOpenPositions cfg trades = CountOpenPositions_loop cfg (rev trades) 0"

text \<open>The reasons \<^verbatim>\<open>ValidateSignal\<close> prints before it returns false, in source order.\<close>

datatype reject_reason =
    SpreadTooHigh double
  | TooManyOpenPositions int
  | InvalidDirection string
  | BuyEntryPriceTooHigh
  | SellEntryPriceTooLow

datatype verdict = Accepted | Rejected reject_reason

definition ValidateSignal ::
  "config \<Rightarrow> market \<Rightarrow> order_pool \<Rightarrow> string \<Rightarrow> double \<Rightarrow> double \<Rightarrow> double \<Rightarrow>
   verdict" where
  "ValidateSignal cfg m trades direction entryPrice sl tp =
     (let currentSpread = MODE_SPREAD m
      in if currentSpread > double_of_int (MaxSpread cfg)
         then Rejected (SpreadTooHigh currentSpread)
         else
           (let openPositions = CountOpenPositions cfg trades
            in if openPositions \<ge> MaxPositions cfg
               then Rejected (TooManyOpenPositions openPositions)
               else if direction \<noteq> ''BUY'' \<and> direction \<noteq> ''SELL''
               then Rejected (InvalidDirection direction)
               else
                 (let bid = MODE_BID m; ask = MODE_ASK m
                  in if direction = ''BUY'' \<and>
                        entryPrice > ask + double_of_int (Slippage cfg) * Point m
                     then Rejected BuyEntryPriceTooHigh
                     else if direction = ''SELL'' \<and>
                             entryPrice < bid - double_of_int (Slippage cfg) * Point m
                     then Rejected SellEntryPriceTooLow
                     else Accepted)))"

subsection \<open>Order execution\<close>

datatype order_cmd = OP_BUY | OP_SELL

text \<open>The arguments of \<^verbatim>\<open>OrderSend\<close>, in the order of the call (the arrow colour left out).\<close>

record order_request =
  req_symbol :: string
  req_cmd :: order_cmd
  req_volume :: double
  req_price :: double
  req_slippage :: int
  req_stoploss :: double
  req_takeprofit :: double
  req_comment :: string
  req_magic :: int
  req_expiration :: int

text \<open>
  \<^verbatim>\<open>LogTradeToBackend\<close> posts the open trade and only prints whether the answer was
  non-empty; the model returns that flag.
\<close>

definition LogTradeToBackend ::
  "web_result \<Rightarrow> int \<Rightarrow> string \<Rightarrow> double \<Rightarrow> double \<Rightarrow> double \<Rightarrow> double \<Rightarrow> bool" where
  "LogTradeToBackend tradelog ticket direction lots price sl tp =
     (SendHttpRequest tradelog \<noteq> '''')"

text \<open>
  How \<^verbatim>\<open>ExecuteSignal\<close> ends: the order was placed (with the ticket and whether the
  backend took the trade report), \<^verbatim>\<open>OrderSend\<close> failed, or, in the older version only,
  the program was stopped by a division by zero.
\<close>

datatype exec_outcome =
    OrderPlaced order_request int bool
  | OrderFailed order_request
  | ZeroDivide

text \<open>
  \<^verbatim>\<open>ExecuteSignal\<close> of the later version. \<open>m\<close> holds the quotes read by this call,
  \<open>OrderSend\<close> is the host's order function (it returns the ticket, or a value that is
  not positive on failure), \<open>tradelog\<close> the host's answer to the trade report.
\<close>

definition ExecuteSignal ::
  "config \<Rightarrow> market \<Rightarrow> (order_request \<Rightarrow> int) \<Rightarrow> web_result \<Rightarrow>
   string \<Rightarrow> double \<Rightarrow> double \<Rightarrow> double \<Rightarrow> exec_outcome" where
  "ExecuteSignal cfg m OrderSend tradelog direction entryPrice sl tp =
     (let orderType = (if direction = ''BUY'' then OP_BUY else OP_SELL);
          price = (if direction = ''BUY'' then MODE_ASK m else MODE_BID m);
          request =
            \<lparr>req_symbol = Symbol cfg, req_cmd = orderType, req_volume = LotSize cfg,
             req_price = price, req_slippage = Slippage cfg, req_stoploss = sl,
             req_takeprofit = tp, req_comment = ''AI Scalping Signal'',
             req_magic = MagicNumber cfg, req_expiration = 0\<rparr>;
          ticket = OrderSend request
      in if ticket > 0
         then OrderPlaced request ticket
                (LogTradeToBackend tradelog ticket direction (LotSize cfg) price sl tp)
         else OrderFailed request)"

text \<open>
  The older \<^verbatim>\<open>ExecuteSignal\<close> first computes \<open>slPoints\<close> and \<open>tpPoints\<close>, which it never
  uses, by dividing price differences by \<^verbatim>\<open>Point\<close>. MQL4 stops a program that divides
  by zero, so the call places no order when \<^verbatim>\<open>Point\<close> is 0; otherwise it goes on as
  the later version does.
\<close>

definition ExecuteSignal_v1 ::
  "config \<Rightarrow> market \<Rightarrow> (order_request \<Rightarrow> int) \<Rightarrow> web_result \<Rightarrow>
   string \<Rightarrow> double \<Rightarrow> double \<Rightarrow> double \<Rightarrow> exec_outcome" where
  "ExecuteSignal_v1 cfg m OrderSend tradelog direction entryPrice sl tp =
     (if Point m = 0 then ZeroDivide
      else ExecuteSignal cfg m OrderSend tradelog direction entryPrice sl tp)"

subsection \<open>Signal polling\<close>

record signal =
  sig_direction :: string
  sig_entryPrice :: double
  sig_sl :: double
  sig_tp :: double
  sig_confidence :: double

text \<open>The answers of the host during one call of \<^verbatim>\<open>CheckForSignals\<close>, in the order asked.\<close>

record poll_env =
  pe_signal :: web_result
  pe_market :: market
  pe_trades :: order_pool
  pe_exec_market :: market
  pe_OrderSend :: "order_request \<Rightarrow> int"
  pe_tradelog :: web_result

datatype poll_outcome =
    NoSignal
  | ValidationFailed signal reject_reason
  | Executed signal exec_outcome

text \<open>
  The block of \<^verbatim>\<open>CheckForSignals\<close> that extracts the five fields of a signal from the
  response; \<open>StringToDouble\<close> is the host's conversion function. The older version
  uses the older \<^verbatim>\<open>ExtractValue\<close>.
\<close>

definition DecodeSignal_v1 :: "(string \<Rightarrow> double) \<Rightarrow> string \<Rightarrow> signal" where
  "DecodeSignal_v1 StringToDouble signal_text =
     (let direction = ExtractValue_v1 signal_text ''direction'';
          entryPrice = StringToDouble (ExtractValue_v1 signal_text ''entry_price'');
          sl = StringToDouble (ExtractValue_v1 signal_text ''sl'');
          tp = StringToDouble (ExtractValue_v1 signal_text ''tp'');
          confidence = StringToDouble (ExtractValue_v1 signal_text ''confidence'')
      in \<lparr>sig_direction = direction, sig_entryPrice = entryPrice, sig_sl = sl,
          sig_tp = tp, sig_confidence = confidence\<rparr>)"

text \<open>
  The same block of the later version; the result is \<open>None\<close> if one of the extractions
  does not return.
\<close>

definition DecodeSignal_v2 :: "(string \<Rightarrow> double) \<Rightarrow> string \<Rightarrow> signal option" where
  "DecodeSignal_v2 StringToDouble signal_text =
     do {
       direction \<leftarrow> ExtractValue_v2 signal_text ''direction'';
       entry_price \<leftarrow> ExtractValue_v2 signal_text ''entry_price'';
       sl \<leftarrow> ExtractValue_v2 signal_text ''sl'';
       tp \<leftarrow> ExtractValue_v2 signal_text ''tp'';
       confidence \<leftarrow> ExtractValue_v2 signal_text ''confidence'';
       Some \<lparr>sig_direction = direction, sig_entryPrice = StringToDouble entry_price,
             sig_sl = StringToDouble sl, sig_tp = StringToDouble tp,
             sig_confidence = StringToDouble confidence\<rparr>
     }"

text \<open>
  \<^verbatim>\<open>CheckForSignals\<close> of the older version: the response is skipped when it is empty or
  equal to \<^verbatim>\<open>no_signal\<close>.
\<close>

definition CheckForSignals_v1 :: "(string \<Rightarrow> double) \<Rightarrow> config \<Rightarrow> poll_env \<Rightarrow> poll_outcome" where
  "CheckForSignals_v1 StringToDouble cfg pe =
     (let response = SendHttpRequest (pe_signal pe)
      in if response = '''' \<or> response = ''no_signal'' then NoSignal
         else
           (let sg = DecodeSignal_v1 StringToDouble response
            in case ValidateSignal cfg (pe_market pe) (pe_trades pe)
                      (sig_direction sg) (sig_entryPrice sg) (sig_sl sg) (sig_tp sg) of
                 Rejected reason \<Rightarrow> ValidationFailed sg reason
               | Accepted \<Rightarrow>
                   Executed sg
                     (ExecuteSignal_v1 cfg (pe_exec_market pe) (pe_OrderSend pe) (pe_tradelog pe)
                        (sig_direction sg) (sig_entryPrice sg) (sig_sl sg) (sig_tp sg))))"

text \<open>
  \<^verbatim>\<open>CheckForSignals\<close> of the later version: the response is skipped when it is empty or
  \<^verbatim>\<open>StringFind\<close> finds \<^verbatim>\<open>no_signal\<close> anywhere in it.
\<close>

definition CheckForSignals_v2 ::
  "(string \<Rightarrow> double) \<Rightarrow> config \<Rightarrow> poll_env \<Rightarrow> poll_outcome option" where
  "CheckForSignals_v2 StringToDouble cfg pe =
     (let response = SendHttpRequest (pe_signal pe)
      in if response = '''' \<or> StringFind response ''no_signal'' \<ge> 0 then Some NoSignal
         else do {
           sg \<leftarrow> DecodeSignal_v2 StringToDouble response;
           Some
             (case ValidateSignal cfg (pe_market pe) (pe_trades pe)
                     (sig_direction sg) (sig_entryPrice sg) (sig_sl sg) (sig_tp sg) of
                Rejected reason \<Rightarrow> ValidationFailed sg reason
              | Accepted \<Rightarrow>
                  Executed sg
                    (ExecuteSignal cfg (pe_exec_market pe) (pe_OrderSend pe) (pe_tradelog pe)
                       (sig_direction sg) (sig_entryPrice sg) (sig_sl sg) (sig_tp sg)))
         })"

subsection \<open>The tick handler\<close>

text \<open>
  The answers of the host during one call of \<^verbatim>\<open>OnTick\<close>: the formatted quote, the four
  readings of \<^verbatim>\<open>GetTickCount()\<close> (poll test, poll timestamp, flush test, flush timestamp),
  the answers to the poll and the answer to the upload.
\<close>

record tick_env =
  te_tickJson :: string
  te_clock_poll :: "32 word"
  te_poll :: poll_env
  te_clock_polled :: "32 word"
  te_clock_flush :: "32 word"
  te_upload :: web_result
  te_clock_sent :: "32 word"

text \<open>
  What one call of \<^verbatim>\<open>OnTick\<close> did: \<open>polled\<close> is \<open>None\<close> when \<^verbatim>\<open>CheckForSignals\<close> was not
  called, \<open>flushed\<close> is \<open>None\<close> when \<^verbatim>\<open>SendTickData\<close> was not called.
\<close>

record tick_outcome =
  polled :: "poll_outcome option"
  flushed :: "flush_outcome option"

text \<open>The last statement of \<^verbatim>\<open>OnTick\<close>, the same in both versions.\<close>

definition OnTick_flush :: "config \<Rightarrow> tick_env \<Rightarrow> ea_state \<Rightarrow> ea_state \<times> flush_outcome option" where
  "OnTick_flush cfg te s =
     (if tickCount s \<ge> tickBufferSize \<or> uint (te_clock_flush te) - lastTickSend s > 30000
      then (let (s', f) = SendTickData cfg (te_upload te) (te_clock_sent te) s in (s', Some f))
      else (s, None))"

text \<open>
  \<^verbatim>\<open>OnTick\<close> of the older version returns at once unless the session is connected and
  trading is enabled. A division by zero inside the poll stops the program, so the rest
  of the handler does not run.
\<close>

definition OnTick_v1 ::
  "(string \<Rightarrow> double) \<Rightarrow> config \<Rightarrow> tick_env \<Rightarrow> ea_state \<Rightarrow> ea_state \<times> tick_outcome" where
  "OnTick_v1 StringToDouble cfg te s =
     (if \<not> isConnected s \<or> \<not> EnableTrading cfg then (s, \<lparr>polled = None, flushed = None\<rparr>)
      else
        (let s1 = CollectTickData (te_tickJson te) s
         in if uint (te_clock_poll te) - lastSignalPoll s1 > signalPollInterval
            then
              (case CheckForSignals_v1 StringToDouble cfg (te_poll te) of
                 Executed sg ZeroDivide \<Rightarrow>
                   (s1, \<lparr>polled = Some (Executed sg ZeroDivide), flushed = None\<rparr>)
               | po \<Rightarrow>
                   (let s2 = s1\<lparr>lastSignalPoll := uint (te_clock_polled te)\<rparr>;
                        (s3, f) = OnTick_flush cfg te s2
                    in (s3, \<lparr>polled = Some po, flushed = f\<rparr>)))
            else
              (let (s3, f) = OnTick_flush cfg te s1
               in (s3, \<lparr>polled = None, flushed = f\<rparr>))))"

text \<open>
  \<^verbatim>\<open>OnTick\<close> of the later version collects and uploads whenever the session is
  connected; only the poll depends on \<open>EnableTrading\<close>.
\<close>

definition OnTick_v2 ::
  "(string \<Rightarrow> double) \<Rightarrow> config \<Rightarrow> tick_env \<Rightarrow> ea_state \<Rightarrow> (ea_state \<times> tick_outcome) option" where
  "OnTick_v2 StringToDouble cfg te s =
     (if \<not> isConnected s then Some (s, \<lparr>polled = None, flushed = None\<rparr>)
      else
        (let s1 = CollectTickData (te_tickJson te) s
         in if EnableTrading cfg \<and>
               uint (te_clock_poll te) - lastSignalPoll s1 > signalPollInterval
            then do {
              po \<leftarrow> CheckForSignals_v2 StringToDouble cfg (te_poll te);
              let s2 = s1\<lparr>lastSignalPoll := uint (te_clock_polled te)\<rparr>;
                  (s3, f) = OnTick_flush cfg te s2
              in Some (s3, \<lparr>polled = Some po, flushed = f\<rparr>)
            }
            else
              (let (s3, f) = OnTick_flush cfg te s1
               in Some (s3, \<lparr>polled = None, flushed = f\<rparr>))))"

subsection \<open>Session start, session end and the close report\<close>

text \<open>
  \<^verbatim>\<open>ArrayResize\<close> keeps the elements that fit and fills the rest with empty strings.
\<close>

definition ArrayResize :: "string list \<Rightarrow> nat \<Rightarrow> string list" where
  "ArrayResize xs n = take n xs @ replicate (n - length xs) ''''"

text \<open>
  The history scan of the later \<^verbatim>\<open>OnInit\<close>, over the positions in the order visited;
  \<^verbatim>\<open>MathMax\<close> of two tickets is their maximum.
\<close>

fun OnInit_scan :: "config \<Rightarrow> order_pool \<Rightarrow> int \<Rightarrow> int" where
  "OnInit_scan cfg [] lastLogged = lastLogged"
| "OnInit_scan cfg (None # os) lastLogged = OnInit_scan cfg os lastLogged"
| "OnInit_scan cfg (Some ord # os) lastLogged =
     OnInit_scan cfg os
       (if OrderSymbol ord = Symbol cfg \<and> OrderMagicNumber ord = MagicNumber cfg
        then max lastLogged (OrderTicket ord) else lastLogged)"

text \<open>
  \<^verbatim>\<open>OnInit\<close> of the later version: \<open>health\<close> is the host's answer to the health request,
  \<open>history\<close> the order history, scanned from its last position down to position 0.
\<close>

definition OnInit :: "config \<Rightarrow> web_result \<Rightarrow> order_pool \<Rightarrow> ea_state \<Rightarrow> ea_state" where
  "OnInit cfg health history s =
     s\<lparr>tickData := ArrayResize (tickData s) tickBufferSize,
       isConnected := TestBackendConnection health,
       lastLoggedTicket := OnInit_scan cfg (rev history) (lastLoggedTicket s)\<rparr>"

text \<open>\<^verbatim>\<open>OnDeinit\<close> uploads what is buffered and frees the array.\<close>

definition OnDeinit :: "config \<Rightarrow> web_result \<Rightarrow> 32 word \<Rightarrow> ea_state \<Rightarrow> ea_state \<times> flush_outcome option" where
  "OnDeinit cfg upload clock s =
     (let (s1, f) = (if tickCount s > 0
                     then (let (s', f') = SendTickData cfg upload clock s in (s', Some f'))
                     else (s, None))
      in (s1\<lparr>tickData := []\<rparr>, f))"

text \<open>
  The scan of the later \<^verbatim>\<open>OnTrade\<close>, over the positions in the order visited: it stops
  at the first selectable order of this symbol and magic number whose ticket is above
  the watermark.
\<close>

fun OnTrade_scan :: "config \<Rightarrow> int \<Rightarrow> order_pool \<Rightarrow> order option" where
  "OnTrade_scan cfg lastLogged [] = None"
| "OnTrade_scan cfg lastLogged (None # os) = OnTrade_scan cfg lastLogged os"
| "OnTrade_scan cfg lastLogged (Some ord # os) =
     (if OrderSymbol ord = Symbol cfg \<and> OrderMagicNumber ord = MagicNumber cfg \<and>
         OrderTicket ord > lastLogged
      then Some ord
      else OnTrade_scan cfg lastLogged os)"

text \<open>
  What one call of \<^verbatim>\<open>OnTrade\<close> did: nothing, or it posted the close of an order, with
  the flag telling whether the backend answered.
\<close>

datatype close_outcome = NoNewClose | CloseReported order bool

text \<open>
  \<^verbatim>\<open>OnTrade\<close> of the later version. The watermark is set before the report is posted,
  whatever the answer \<open>report\<close> of the backend.
\<close>

definition OnTrade :: "config \<Rightarrow> order_pool \<Rightarrow> web_result \<Rightarrow> ea_state \<Rightarrow> ea_state \<times> close_outcome" where
  "OnTrade cfg history report s =
     (case OnTrade_scan cfg (lastLoggedTicket s) (rev history) of
        None \<Rightarrow> (s, NoNewClose)
      | Some ord \<Rightarrow>
          (s\<lparr>lastLoggedTicket := OrderTicket ord\<rparr>,
           CloseReported ord (SendHttpRequest report \<noteq> '''')))"

subsection \<open>Runs of events\<close>

text \<open>
  A session as far as the watermark goes: calls of \<^verbatim>\<open>OnInit\<close> and trade-change
  notifications in any order, each with the answers of the host. The terminal calls
  \<^verbatim>\<open>OnInit\<close> in two situations. When it loads the program (the Expert Advisor is
  attached, or the terminal starts again) the globals have just been set by their
  initialisers, \<^verbatim>\<open>int lastLoggedTicket = 0;\<close> among them: \<open>Restarted\<close>. When it
  re-initialises the loaded program (the symbol or period of the chart is changed) the
  globals are as the program left them: \<open>SessionStart\<close>. The run returns the final state
  and what each notification did.
\<close>

datatype session_event =
    Restarted web_result order_pool
  | SessionStart web_result order_pool
  | TradeChanged order_pool web_result

fun run_session :: "config \<Rightarrow> session_event list \<Rightarrow> ea_state \<Rightarrow> ea_state \<times> close_outcome list" where
  "run_session cfg [] s = (s, [])"
| "run_session cfg (Restarted health history # es) s =
     run_session cfg es (OnInit cfg health history initial_state)"
| "run_session cfg (SessionStart health history # es) s =
     run_session cfg es (OnInit cfg health history s)"
| "run_session cfg (TradeChanged history report # es) s =
     (let (s1, c) = OnTrade cfg history report s;
          (s2, cs) = run_session cfg es s1
      in (s2, c # cs))"

text \<open>The tickets posted as closed during a run, whether or not the post was answered.\<close>

fun reported_tickets :: "close_outcome list \<Rightarrow> int list" where
  "reported_tickets [] = []"
| "reported_tickets (NoNewClose # cs) = reported_tickets cs"
| "reported_tickets (CloseReported ord ok # cs) = OrderTicket ord # reported_tickets cs"

text \<open>
  The tickets of this symbol and magic number that the calls of \<^verbatim>\<open>OnInit\<close> in a run find
  in the order history.
\<close>

fun matching_tickets :: "config \<Rightarrow> order_pool \<Rightarrow> int list" where
  "matching_tickets cfg [] = []"
| "matching_tickets cfg (None # os) = matching_tickets cfg os"
| "matching_tickets cfg (Some ord # os) =
     (if OrderSymbol ord = Symbol cfg \<and> OrderMagicNumber ord = MagicNumber cfg
      then OrderTicket ord # matching_tickets cfg os
      else matching_tickets cfg os)"

fun adopted_tickets :: "config \<Rightarrow> session_event list \<Rightarrow> int list" where
  "adopted_tickets cfg [] = []"
| "adopted_tickets cfg (Restarted health history # es) =
     matching_tickets cfg history @ adopted_tickets cfg es"
| "adopted_tickets cfg (SessionStart health history # es) =
     matching_tickets cfg history @ adopted_tickets cfg es"
| "adopted_tickets cfg (TradeChanged history report # es) = adopted_tickets cfg es"

text \<open>A run during which the program stays loaded.\<close>

fun stays_loaded :: "session_event list \<Rightarrow> bool" where
  "stays_loaded [] = True"
| "stays_loaded (Restarted health history # es) = False"
| "stays_loaded (SessionStart health history # es) = stays_loaded es"
| "stays_loaded (TradeChanged history report # es) = stays_loaded es"

text \<open>
  The tick buffer under any interleaving of collected ticks and upload attempts.
\<close>

datatype buffer_event =
    TickArrived string
  | UploadAttempt web_result "32 word"

fun run_buffer :: "config \<Rightarrow> buffer_event list \<Rightarrow> ea_state \<Rightarrow> ea_state" where
  "run_buffer cfg [] s = s"
| "run_buffer cfg (TickArrived tickJson # es) s = run_buffer cfg es (CollectTickData tickJson s)"
| "run_buffer cfg (UploadAttempt upload clock # es) s =
     run_buffer cfg es (fst (SendTickData cfg upload clock s))"

subsection \<open>Notions used to state the properties\<close>

text \<open>The request a call of \<^verbatim>\<open>ExecuteSignal\<close> handed to \<^verbatim>\<open>OrderSend\<close>, if it got that far.\<close>

fun submitted_request :: "exec_outcome \<Rightarrow> order_request option" where
  "submitted_request (OrderPlaced request ticket logged) = Some request"
| "submitted_request (OrderFailed request) = Some request"
| "submitted_request ZeroDivide = None"

text \<open>
  The orders \<^verbatim>\<open>CountOpenPositions\<close>, \<^verbatim>\<open>OnInit\<close> and \<^verbatim>\<open>OnTrade\<close> look for: selectable, and
  tagged with the configured symbol and magic number.
\<close>

definition own_order :: "config \<Rightarrow> order option \<Rightarrow> bool" where
  "own_order cfg slot =
     (case slot of
        None \<Rightarrow> False
      | Some ord \<Rightarrow> OrderSymbol ord = Symbol cfg \<and> OrderMagicNumber ord = MagicNumber cfg)"

text \<open>What a poll validated: the decoded signal and the verdict on it.\<close>

fun validated_with :: "poll_outcome \<Rightarrow> (signal \<times> verdict) option" where
  "validated_with NoSignal = None"
| "validated_with (ValidationFailed sg reason) = Some (sg, Rejected reason)"
| "validated_with (Executed sg outcome) = Some (sg, Accepted)"

text \<open>
  A poll that stopped the program: the older \<^verbatim>\<open>ExecuteSignal\<close> divided by a \<open>Point\<close> of 0.
\<close>

fun stopped :: "poll_outcome \<Rightarrow> bool" where
  "stopped (Executed sg ZeroDivide) = True"
| "stopped po = False"

subsection \<open>Concrete inputs\<close>

text \<open>The default values of the \<^verbatim>\<open>input\<close> parameters, and the same with trading enabled.\<close>

definition default_config :: config where
  "default_config =
     \<lparr>BackendURL = ''https://ai-trading-backend-m1k7.onrender.com'',
      BackendAPIKey = ''production'', Symbol = ''EURUSD'', LotSize = double_of_real 0.01,
      MaxSpread = 20, MaxPositions = 3, Slippage = 30, MagicNumber = 123456,
      EnableTrading = False\<rparr>"

definition trading_config :: config where
  "trading_config = default_config\<lparr>EnableTrading := True\<rparr>"

text \<open>An answered request and a request that failed in the transport.\<close>

definition web_ok :: web_result where
  "web_ok = \<lparr>last_error = 0, response_code = 200, result_data = ''ok''\<rparr>"

definition web_failed :: web_result where
  "web_failed = \<lparr>last_error = 5203, response_code = - 1, result_data = ''''\<rparr>"

definition web_body :: "string \<Rightarrow> web_result" where
  "web_body body = \<lparr>last_error = 0, response_code = 200, result_data = body\<rparr>"

text \<open>A connected session whose buffer holds 500 ticks, and one whose buffer is empty.\<close>

definition full_state :: ea_state where
  "full_state =
     \<lparr>lastSignalPoll = 0, lastTickSend = 1000, tickData = replicate 500 ''{}'',
      tickCount = 500, isConnected = True, lastLoggedTicket = 0\<rparr>"

definition empty_state :: ea_state where
  "empty_state =
     \<lparr>lastSignalPoll = 1000, lastTickSend = 1000, tickData = replicate 500 '''',
      tickCount = 0, isConnected = True, lastLoggedTicket = 0\<rparr>"

text \<open>An order of this Expert Advisor with the given ticket, and one of another program.\<close>

definition ea_order :: "int \<Rightarrow> order" where
  "ea_order ticket =
     \<lparr>OrderTicket = ticket, OrderSymbol = ''EURUSD'', OrderMagicNumber = 123456,
      OrderClosePrice = double_of_real 1.1, OrderProfit = 0, OrderCloseTime = 1\<rparr>"

definition foreign_order :: "int \<Rightarrow> order" where
  "foreign_order ticket =
     \<lparr>OrderTicket = ticket, OrderSymbol = ''EURUSD'', OrderMagicNumber = 7,
      OrderClosePrice = double_of_real 1.1, OrderProfit = 0, OrderCloseTime = 1\<rparr>"

text \<open>Quotes: a calm market with ask 1.10000 and point 0.0001, and one with spread 25.\<close>

definition calm_market :: market where
  "calm_market =
     \<lparr>MODE_BID = double_of_real 1.0998, MODE_ASK = double_of_real 1.1,
      MODE_SPREAD = double_of_int 2, Point = double_of_real 0.0001\<rparr>"

definition wide_market :: market where
  "wide_market =
     \<lparr>MODE_BID = double_of_real 1.09975, MODE_ASK = double_of_real 1.1,
      MODE_SPREAD = double_of_int 25, Point = double_of_real 0.00001\<rparr>"

text \<open>
  Order functions of the host: one that always answers ticket 77, and one that opens
  ticket 77 for a buy order priced at 1.1 and refuses every other request.
\<close>

definition OrderSend_77 :: "order_request \<Rightarrow> int" where
  "OrderSend_77 request = 77"

definition OrderSend_buy_at_ask :: "order_request \<Rightarrow> int" where
  "OrderSend_buy_at_ask request =
     (if req_cmd request = OP_BUY \<and> req_price request = double_of_real 1.1 then 77 else - 1)"

text \<open>A conversion function that knows the numbers of the examples and gives 0 otherwise.\<close>

definition StringToDouble_ex :: "string \<Rightarrow> double" where
  "StringToDouble_ex s =
     (if s = ''1.1025'' then double_of_real 1.1025
      else if s = ''1.09'' then double_of_real 1.09
      else if s = ''1.12'' then double_of_real 1.12
      else if s = ''0.9'' then double_of_real 0.9
      else 0)"

text \<open>An open-order pool with three orders of this Expert Advisor among others.\<close>

definition three_open :: order_pool where
  "three_open =
     [Some (ea_order 11), None, Some (foreign_order 5), Some (ea_order 12), Some (ea_order 13)]"

text \<open>
  Answers of the host to a poll: no signal, a buy signal near the ask, the same signal
  with \<open>Point\<close> at 0 when it is executed, and a body that is not the sentinel but
  contains it.
\<close>

definition quiet_poll :: poll_env where
  "quiet_poll =
     \<lparr>pe_signal = web_body ''no_signal'', pe_market = calm_market, pe_trades = [],
      pe_exec_market = calm_market, pe_OrderSend = OrderSend_77, pe_tradelog = web_ok\<rparr>"

definition buy_poll :: poll_env where
  \<open>buy_poll =
     quiet_poll\<lparr>pe_signal :=
       web_body ''{"direction":"BUY","entry_price":1.1025,"sl":1.09,"tp":1.12,"confidence":0.9}''\<rparr>\<close>

definition pointless_poll :: poll_env where
  "pointless_poll = buy_poll\<lparr>pe_exec_market := calm_market\<lparr>Point := 0\<rparr>\<rparr>"

definition status_poll :: poll_env where
  \<open>status_poll = quiet_poll\<lparr>pe_signal := web_body ''{"status":"no_signal"}''\<rparr>\<close>

text \<open>
  Answers of the host to a tick: the flush test reads the clock at 31000, which is
  30000 ms after the last upload of \<open>empty_state\<close>, or at 31001.
\<close>

definition tick_at_30000 :: tick_env where
  "tick_at_30000 =
     \<lparr>te_tickJson = ''{}'', te_clock_poll = 1400, te_poll = quiet_poll,
      te_clock_polled = 1400, te_clock_flush = 31000, te_upload = web_ok,
      te_clock_sent = 31000\<rparr>"

definition tick_at_30001 :: tick_env where
  "tick_at_30001 = tick_at_30000\<lparr>te_clock_flush := 31001, te_clock_sent := 31001\<rparr>"

text \<open>
  The tick at 31001 again, with a poll that is due (600 ms after the last one of
  \<open>empty_state\<close>) and answered by the buy signal, \<open>Point\<close> being 0 at its execution.
\<close>

definition tick_pointless :: tick_env where
  "tick_pointless = tick_at_30001\<lparr>te_clock_poll := 1600, te_poll := pointless_poll\<rparr>"

text \<open>
  A session in which the close of ticket 3 is posted (and not answered), the program is
  then loaded again and finds tickets 3 and 9 in the history, and a last notification
  follows. The same with the program re-initialised instead of loaded again.
\<close>

definition restart_events :: "session_event list" where
  "restart_events =
     [TradeChanged [Some (ea_order 3)] web_failed,
      Restarted web_ok [Some (ea_order 3), Some (ea_order 9)],
      TradeChanged [Some (ea_order 3), Some (ea_order 9)] web_ok]"

definition reinit_events :: "session_event list" where
  "reinit_events =
     [TradeChanged [Some (ea_order 3)] web_failed,
      SessionStart web_ok [Some (ea_order 3), Some (ea_order 9)],
      TradeChanged [Some (ea_order 3), Some (ea_order 9)] web_ok]"

subsection \<open>Double-precision numbers\<close>

text \<open>
  \<open>floor_log2\<close> gives the binary exponent, \<open>round_double\<close> moves a number by at most half
  the spacing at that exponent, and the numbers it produces are the ones it leaves
  alone.
\<close>

lemma pow2_powr: "pow2 e = 2 powr (of_int e)"
proof (cases "0 \<le> e")
  case True
  then show ?thesis
    by (simp add: pow2_def powr_realpow [symmetric])
next
  case False
  then have "2 powr (of_int e) = 1 / 2 powr (real (nat (- e)))"
    by (simp add: powr_minus_divide [symmetric])
  with False show ?thesis
    by (simp add: pow2_def powr_realpow [symmetric])
qed

lemma pow2_pos: "0 < pow2 e"
  by (simp add: pow2_powr)

lemma pow2_add: "pow2 (a + b) = pow2 a * pow2 b"
  by (simp add: pow2_powr powr_add)

lemma pow2_mono: "a \<le> b \<Longrightarrow> pow2 a \<le> pow2 b"
  by (simp add: pow2_powr)

lemma pow2_less_iff: "pow2 a < pow2 b \<longleftrightarrow> a < b"
  by (simp add: pow2_powr)

lemma pow2_nat: "pow2 (int n) = 2 ^ n"
  by (simp add: pow2_def)

lemma two_power_le_of_int: "2 ^ k \<le> n \<Longrightarrow> (2::real) ^ k \<le> of_int n"
  using of_int_le_iff [of "2 ^ k" n, where ?'a = real] by simp

lemma of_int_less_two_power: "n < 2 ^ k \<Longrightarrow> real_of_int n + 1 \<le> 2 ^ k"
  using of_int_le_iff [of "n + 1" "2 ^ k", where ?'a = real] by simp

lemma floor_log2_bounds:
  assumes "x \<noteq> 0"
  shows "pow2 (floor_log2 x) \<le> \<bar>x\<bar> \<and> \<bar>x\<bar> < pow2 (floor_log2 x + 1)"
proof (cases "1 \<le> \<bar>x\<bar>")
  case True
  define n where "n = \<lfloor>\<bar>x\<bar>\<rfloor>"
  have n: "0 < n" "of_int n \<le> \<bar>x\<bar>" "\<bar>x\<bar> < of_int (n + 1)"
    using True by (simp_all add: n_def)
  from bitlen_bounds [OF n(1)]
  have b: "2 ^ nat (bitlen n - 1) \<le> n" "n < 2 ^ nat (bitlen n)"
    by simp_all
  have pos: "1 \<le> bitlen n"
    using n(1) by (subst compute_bitlen) (simp add: bitlen_nonneg)
  have "pow2 (bitlen n - 1) = 2 ^ nat (bitlen n - 1)" "pow2 (bitlen n) = 2 ^ nat (bitlen n)"
    using pos by (simp_all add: pow2_def)
  with two_power_le_of_int [OF b(1)] of_int_less_two_power [OF b(2)] n(2,3)
  have low: "pow2 (bitlen n - 1) \<le> \<bar>x\<bar>" and high: "\<bar>x\<bar> < pow2 (bitlen n)"
    by linarith+
  from True low high show ?thesis
    by (simp add: floor_log2_def n_def)
next
  case False
  define y where "y = 1 / \<bar>x\<bar>"
  define n where "n = \<lceil>y\<rceil> - 1"
  have y: "1 < y"
    using False assms by (simp add: y_def)
  have n: "0 < n" "of_int n < y" "y \<le> of_int (n + 1)"
    using y by (simp_all add: n_def) linarith+
  from bitlen_bounds [OF n(1)]
  have b: "2 ^ nat (bitlen n - 1) \<le> n" "n < 2 ^ nat (bitlen n)"
    by simp_all
  have pos: "1 \<le> bitlen n"
    using n(1) by (subst compute_bitlen) (simp add: bitlen_nonneg)
  have x: "\<bar>x\<bar> = 1 / y" "0 < y"
    using assms by (simp_all add: y_def)
  have "y \<le> 2 ^ nat (bitlen n)"
    using of_int_less_two_power [OF b(2)] n(3) by linarith
  then have "1 / 2 ^ nat (bitlen n) \<le> 1 / y"
    using x(2) by (simp add: frac_le)
  moreover have "pow2 (- bitlen n) = 1 / 2 ^ nat (bitlen n)"
    using pos by (simp add: pow2_def)
  ultimately have low: "pow2 (- bitlen n) \<le> \<bar>x\<bar>"
    using x(1) by simp
  have "2 ^ nat (bitlen n - 1) < y"
    using two_power_le_of_int [OF b(1)] n(2) by linarith
  then have "1 / y < 1 / 2 ^ nat (bitlen n - 1)"
    by (simp add: frac_less2)
  moreover have "pow2 (- bitlen n + 1) = 1 / 2 ^ nat (bitlen n - 1)"
    using pos by (cases "bitlen n = 1") (simp_all add: pow2_def)
  ultimately have high: "\<bar>x\<bar> < pow2 (- bitlen n + 1)"
    using x(1) by simp
  from False low high show ?thesis
    by (simp add: floor_log2_def n_def y_def)
qed

lemma floor_log2_unique:
  assumes "pow2 e \<le> \<bar>x\<bar>" and "\<bar>x\<bar> < pow2 (e + 1)"
  shows "floor_log2 x = e"
proof -
  have "x \<noteq> 0"
    using assms(1) pow2_pos [of e] by auto
  from floor_log2_bounds [OF this]
  have "pow2 (floor_log2 x) < pow2 (e + 1)" "pow2 e < pow2 (floor_log2 x + 1)"
    using assms by linarith+
  then show ?thesis
    by (simp add: pow2_less_iff)
qed

lemma round_half_even_near: "\<bar>of_int (round_half_even x) - x\<bar> \<le> 1 / 2"
  by (simp add: round_half_even_def Let_def)

lemma round_half_even_int [simp]: "round_half_even (of_int n) = n"
  by (simp add: round_half_even_def)



lemma round_half_even_upper: "\<bar>y\<bar> < of_int k \<Longrightarrow> \<bar>round_half_even y\<bar> \<le> k"
  using round_half_even_near [of y] by linarith

lemma round_half_even_lower: "of_int k \<le> \<bar>y\<bar> \<Longrightarrow> k \<le> \<bar>round_half_even y\<bar>"
  using round_half_even_near [of y] by linarith

lemma round_double_near:
  "\<bar>round_double x - x\<bar> \<le> pow2 (max (floor_log2 x) (- 1022) - 52) / 2"
proof (cases "x = 0")
  case True
  then show ?thesis
    using pow2_pos [of "max (floor_log2 x) (- 1022) - 52"] by (simp add: round_double_def)
next
  case False
  define u where "u = pow2 (max (floor_log2 x) (- 1022) - 52)"
  have u: "0 < u"
    by (simp add: u_def pow2_pos)
  have "of_int (round_half_even (x / u)) * u - x =
        (of_int (round_half_even (x / u)) - x / u) * u"
    using u by (simp add: field_simps)
  then have "\<bar>of_int (round_half_even (x / u)) * u - x\<bar> =
        \<bar>of_int (round_half_even (x / u)) - x / u\<bar> * u"
    using u by (simp add: abs_mult)
  also have "\<dots> \<le> 1 / 2 * u"
    using round_half_even_near [of "x / u"] u by (intro mult_right_mono) simp_all
  finally show ?thesis
    using False by (simp add: round_double_def Let_def u_def)
qed

lemma round_double_idem: "round_double (round_double x) = round_double x"
proof (cases "x = 0")
  case True
  then show ?thesis
    by (simp add: round_double_def)
next
  case False
  define E where "E = max (floor_log2 x) (- 1022)"
  define u where "u = pow2 (E - 52)"
  define m where "m = round_half_even (x / u)"
  have r: "round_double x = of_int m * u"
    using False by (simp add: round_double_def Let_def E_def u_def m_def)
  have u: "0 < u"
    by (simp add: u_def pow2_pos)
  have small: "pow2 53 = 2 ^ 53" "pow2 52 = 2 ^ 52" "pow2 1 = 2"
    by (simp_all add: pow2_def)
  have top: "pow2 (E + 1) = 2 ^ 53 * u"
    using pow2_add [of 53 "E - 52"] small by (simp add: u_def ac_simps)
  have bottom: "pow2 E = 2 ^ 52 * u"
    using pow2_add [of 52 "E - 52"] small by (simp add: u_def ac_simps)
  from floor_log2_bounds [OF False]
  have x: "pow2 (floor_log2 x) \<le> \<bar>x\<bar>" "\<bar>x\<bar> < pow2 (floor_log2 x + 1)"
    by simp_all
  have "pow2 (floor_log2 x + 1) \<le> pow2 (E + 1)"
    by (rule pow2_mono) (simp add: E_def)
  with x(2) top have "\<bar>x\<bar> < 2 ^ 53 * u"
    by linarith
  then have "\<bar>x / u\<bar> < of_int (2 ^ 53)"
    using u by (simp add: field_simps)
  then have m_upper: "\<bar>m\<bar> \<le> 2 ^ 53"
    unfolding m_def by (rule round_half_even_upper)
  show ?thesis
  proof (cases "m = 0")
    case True
    with r show ?thesis
      by (simp add: round_double_def)
  next
    case nonzero: False
    then have r_nonzero: "of_int m * u \<noteq> 0"
      using u by simp
    have abs_r: "\<bar>of_int m * u\<bar> = of_int \<bar>m\<bar> * u"
      using u by (simp add: abs_mult)
    show ?thesis
    proof (cases "\<bar>m\<bar> = 2 ^ 53")
      case True
      then have "\<bar>of_int m * u\<bar> = pow2 (E + 1)"
        using abs_r top by simp
      then have "floor_log2 (of_int m * u) = E + 1"
        using pow2_less_iff [of "E + 1" "E + 1 + 1"] by (intro floor_log2_unique) simp_all
      moreover have "- 1022 \<le> E"
        by (simp add: E_def)
      moreover have "pow2 (E + 1 - 52) = 2 * u"
        using pow2_add [of 1 "E - 52"] small by (simp add: u_def ac_simps)
      moreover have "even \<bar>m\<bar>"
        using True by simp
      then have "even m"
        by (simp only: dvd_abs_iff)
      then have "real_of_int m / 2 = of_int (m div 2)"
        by (simp add: real_of_int_div)
      then have "of_int m * u / (2 * u) = real_of_int (m div 2)"
        using u by simp
      moreover have "real_of_int (m div 2) * (2 * u) = of_int m * u"
        using \<open>even m\<close> by (simp add: real_of_int_div)
      ultimately show ?thesis
        using r r_nonzero by (simp add: round_double_def Let_def max_def)
    next
      case False
      with m_upper have "\<bar>m\<bar> < 2 ^ 53"
        by simp
      then have "real_of_int \<bar>m\<bar> < 2 ^ 53"
        using of_int_less_iff [of "\<bar>m\<bar>" "2 ^ 53", where ?'a = real] by simp
      then have below: "\<bar>of_int m * u\<bar> < pow2 (E + 1)"
        using abs_r top u by simp
      define e' where "e' = floor_log2 (of_int m * u)"
      from floor_log2_bounds [OF r_nonzero]
      have r_bounds: "pow2 e' \<le> \<bar>of_int m * u\<bar>" "\<bar>of_int m * u\<bar> < pow2 (e' + 1)"
        by (simp_all add: e'_def)
      from r_bounds(1) below have "pow2 e' < pow2 (E + 1)"
        by linarith
      then have le: "e' \<le> E"
        by (simp add: pow2_less_iff)
      have "max e' (- 1022) = E"
      proof (cases "- 1022 \<le> floor_log2 x")
        case True
        then have E: "E = floor_log2 x"
          by (simp add: E_def)
        with x(1) bottom have "2 ^ 52 * u \<le> \<bar>x\<bar>"
          by simp
        then have "of_int (2 ^ 52) \<le> \<bar>x / u\<bar>"
          using u by (simp add: field_simps)
        then have "2 ^ 52 \<le> \<bar>m\<bar>"
          unfolding m_def by (rule round_half_even_lower)
        then have "2 ^ 52 \<le> real_of_int \<bar>m\<bar>"
          using of_int_le_iff [of "2 ^ 52" "\<bar>m\<bar>", where ?'a = real] by simp
        then have "pow2 E \<le> \<bar>of_int m * u\<bar>"
          using abs_r bottom u by simp
        with r_bounds(2) have "pow2 E < pow2 (e' + 1)"
          by linarith
        then have "E \<le> e'"
          by (simp add: pow2_less_iff)
        with le True E show ?thesis
          by simp
      next
        case False
        then have "E = - 1022"
          by (simp add: E_def)
        with le show ?thesis
          by simp
      qed
      then show ?thesis
        using r r_nonzero u by (simp add: round_double_def Let_def e'_def u_def)
    qed
  qed
qed

lemma round_double_exact:
  assumes "\<bar>m\<bar> < 2 ^ 53" and "- 1074 \<le> k"
  shows "round_double (of_int m * pow2 k) = of_int m * pow2 k"
proof (cases "m = 0")
  case True
  then show ?thesis
    by (simp add: round_double_def)
next
  case False
  define x where "x = real_of_int m * pow2 k"
  define E where "E = max (floor_log2 x) (- 1022)"
  have nonzero: "x \<noteq> 0"
    using False pow2_pos [of k] by (simp add: x_def)
  have "real_of_int \<bar>m\<bar> < 2 ^ 53"
    using assms(1) of_int_less_iff [of "\<bar>m\<bar>" "2 ^ 53", where ?'a = real] by simp
  then have "real_of_int \<bar>m\<bar> * pow2 k < 2 ^ 53 * pow2 k"
    using pow2_pos [of k] by simp
  moreover have "pow2 (53 + k) = 2 ^ 53 * pow2 k"
    using pow2_add [of 53 k] by (simp add: pow2_def)
  moreover have "\<bar>x\<bar> = real_of_int \<bar>m\<bar> * pow2 k"
    using pow2_pos [of k] by (simp add: x_def abs_mult)
  ultimately have "pow2 (floor_log2 x) < pow2 (53 + k)"
    using floor_log2_bounds [OF nonzero] by linarith
  then have "floor_log2 x < 53 + k"
    by (simp add: pow2_less_iff)
  with assms(2) have "E - 52 \<le> k"
    by (simp add: E_def)
  then obtain d where d: "k = (E - 52) + int d"
    using zle_iff_zadd by blast
  have split: "pow2 k = pow2 (E - 52) * 2 ^ d"
    unfolding d pow2_add by (simp add: pow2_nat)
  have "x / pow2 (E - 52) = of_int (m * 2 ^ d)"
    using pow2_pos [of "E - 52"] by (simp add: x_def split)
  then have "round_half_even (x / pow2 (E - 52)) = m * 2 ^ d"
    by (simp only: round_half_even_int)
  moreover have "round_double x =
      of_int (round_half_even (x / pow2 (E - 52))) * pow2 (E - 52)"
    using nonzero by (simp add: round_double_def Let_def E_def)
  ultimately have "round_double x = of_int (m * 2 ^ d) * pow2 (E - 52)"
    by simp
  then show ?thesis
    by (simp add: x_def split)
qed

lemma real_of_double_of_int:
  "\<bar>i\<bar> < 2 ^ 53 \<Longrightarrow> real_of_double (double_of_int i) = of_int i"
  using round_double_exact [of i 0] by (simp add: double_of_int_def double_of_real.rep_eq pow2_def)

lemma double_of_real_inverse: "double_of_real (real_of_double d) = d"
proof -
  obtain x where "real_of_double d = round_double x"
    using real_of_double [of d] by blast
  then have "real_of_double (double_of_real (real_of_double d)) = real_of_double d"
    by (simp add: double_of_real.rep_eq round_double_idem)
  then show ?thesis
    by (simp only: real_of_double_inject)
qed

text \<open>
  The facts that evaluate arithmetic and comparisons of given doubles: through the
  representing reals, with the rounding computed.
\<close>

lemmas double_eval =
  real_of_double_inject [symmetric] less_eq_double.rep_eq less_double.rep_eq
  plus_double.rep_eq minus_double.rep_eq times_double.rep_eq zero_double.rep_eq
  double_of_real.rep_eq double_of_int_def
  round_double_def floor_log2_def pow2_def round_half_even_def compute_bitlen Let_def

text \<open>
  The doubles of the quotes and prices used below, as binary64 has them: 1.1,
  30 points of 0.0001 (which is the double 0.003), and the two sums of the price check.
\<close>

lemma double_1_1: "real_of_double (double_of_real 1.1) = 2476979795053773 / 2 ^ 51"
  by (simp add: double_eval)

lemma double_tolerance:
  "double_of_int 30 * double_of_real 0.0001 = double_of_real 0.003"
  "real_of_double (double_of_real 0.003) = 3458764513820541 / 2 ^ 60"
  by (simp_all add: double_eval)

lemma double_buy_threshold:
  "real_of_double (double_of_real 1.1 + double_of_int 30 * double_of_real 0.0001) =
     4967470388989657 / 2 ^ 52"
  by (simp add: double_eval)

lemma double_sell_threshold:
  "real_of_double (double_of_real 1.0998 - double_of_int 30 * double_of_real 0.0001) =
     4939548071299961 / 2 ^ 52"
  "double_of_real 1.0968 < double_of_real 1.0998 - double_of_int 30 * double_of_real 0.0001"
  by (simp_all add: double_eval)

section \<open>Properties\<close>

subsection \<open>Transport and tick buffer\<close>

lemma SendHttpRequest_web_failed: "SendHttpRequest web_failed = ''''"
  by (simp add: SendHttpRequest_def web_failed_def)

lemma SendHttpRequest_web_ok: "SendHttpRequest web_ok = ''ok''"
  by (simp add: SendHttpRequest_def web_ok_def CharArrayToString_def)

lemma SendTickData_failed:
  "SendHttpRequest upload = '''' \<Longrightarrow> fst (SendTickData cfg upload clock s) = s"
  by (simp add: SendTickData_def Let_def)

lemma SendTickData_succeeded:
  "SendHttpRequest upload \<noteq> '''' \<Longrightarrow> tickCount s \<noteq> 0 \<Longrightarrow>
   fst (SendTickData cfg upload clock s) = s\<lparr>tickCount := 0, lastTickSend := uint clock\<rparr>"
  by (simp add: SendTickData_def Let_def)

lemma CollectTickData_at_capacity:
  "tickBufferSize \<le> tickCount s \<Longrightarrow> CollectTickData tickJson s = s"
  by (simp add: CollectTickData_def)

lemma tickCount_CollectTickData:
  "tickCount (CollectTickData tickJson s) =
     (if tickBufferSize \<le> tickCount s then tickCount s else tickCount s + 1)"
  by (simp add: CollectTickData_def)

lemma tickCount_SendTickData_le:
  "tickCount (fst (SendTickData cfg upload clock s)) \<le> tickCount s"
  by (simp add: SendTickData_def Let_def)

text \<open>
  \<^verbatim>\<open>OnInit\<close> gives the array the size of the capacity and collecting keeps the size, so
  the write of \<^verbatim>\<open>CollectTickData\<close> is in range; below capacity the tick is appended to
  the buffered ticks.
\<close>

lemma OnInit_sizes_tickData:
  "length (tickData (OnInit cfg health history s)) = tickBufferSize"
  by (simp add: OnInit_def ArrayResize_def)

lemma CollectTickData_keeps_size:
  "length (tickData (CollectTickData tickJson s)) = length (tickData s)"
  by (simp add: CollectTickData_def)

lemma CollectTickData_appends:
  assumes "tickCount s < tickBufferSize" and "length (tickData s) = tickBufferSize"
  shows "take (tickCount (CollectTickData tickJson s)) (tickData (CollectTickData tickJson s)) =
         take (tickCount s) (tickData s) @ [tickJson]"
  using assms by (simp add: CollectTickData_def take_Suc_conv_app_nth)

text \<open>
  C4. \<^verbatim>\<open>SendTickData\<close> with an empty answer of the transport returns the state as it
  was, batch and flush timer included. With a non-empty answer it changes exactly two
  things: the count becomes 0 and the flush timer takes the clock reading. (The
  transport is asked only when the batch is not empty; with an empty batch the call
  returns at once and changes nothing.) So a batch of 500 stays at 500 after a failed
  upload, the next tick is dropped by \<^verbatim>\<open>CollectTickData\<close>, and a later answered
  upload leaves the count at 0. \<^verbatim>\<open>SendTickData\<close> is the same in both versions.
\<close>

theorem SendTickData_keeps_or_clears:
  "(SendHttpRequest upload = '''' \<longrightarrow> fst (SendTickData cfg upload clock s) = s) \<and>
   (tickCount s = 0 \<longrightarrow> SendTickData cfg upload clock s = (s, NothingToSend)) \<and>
   (SendHttpRequest upload \<noteq> '''' \<and> tickCount s \<noteq> 0 \<longrightarrow>
      fst (SendTickData cfg upload clock s) =
        s\<lparr>tickCount := 0, lastTickSend := uint clock\<rparr>) \<and>
   (tickCount s = tickBufferSize \<and> SendHttpRequest upload = '''' \<and>
    SendHttpRequest retry \<noteq> '''' \<longrightarrow>
      tickCount (fst (SendTickData cfg upload clock s)) = 500 \<and>
      CollectTickData tickJson (fst (SendTickData cfg upload clock s)) =
        fst (SendTickData cfg upload clock s) \<and>
      tickCount (fst (SendTickData cfg retry clock'
        (CollectTickData tickJson (fst (SendTickData cfg upload clock s))))) = 0)"
  by (simp add: SendTickData_failed SendTickData_succeeded CollectTickData_at_capacity
        tickBufferSize_def)
     (simp add: SendTickData_def)

theorem SendTickData_keeps_or_clears_witness:
  "SendHttpRequest web_failed = '''' \<and> SendHttpRequest web_ok \<noteq> '''' \<and>
   tickCount full_state = tickBufferSize \<and>
   fst (SendTickData default_config web_failed 61000 full_state) = full_state \<and>
   tickCount (fst (SendTickData default_config web_failed 61000 full_state)) = 500 \<and>
   CollectTickData ''{}'' (fst (SendTickData default_config web_failed 61000 full_state)) =
     fst (SendTickData default_config web_failed 61000 full_state) \<and>
   tickCount (fst (SendTickData default_config web_ok 62000
     (CollectTickData ''{}''
       (fst (SendTickData default_config web_failed 61000 full_state))))) = 0 \<and>
   fst (SendTickData default_config web_ok 62000 full_state) =
     full_state\<lparr>tickCount := 0, lastTickSend := 62000\<rparr>"
proof -
  have failed: "SendHttpRequest web_failed = ''''"
    by (rule SendHttpRequest_web_failed)
  have answered: "SendHttpRequest web_ok \<noteq> ''''"
    by (simp add: SendHttpRequest_web_ok)
  have full: "tickCount full_state = tickBufferSize"
    by (simp add: full_state_def tickBufferSize_def)
  have nonempty: "tickCount full_state \<noteq> 0"
    by (simp add: full_state_def)
  have reading: "uint (62000 :: 32 word) = 62000"
    by simp
  show ?thesis
    using failed answered full nonempty
      SendTickData_keeps_or_clears
        [of web_failed default_config 61000 full_state web_ok "''{}''" 62000]
      SendTickData_keeps_or_clears
        [of web_ok default_config 62000 full_state web_ok "''{}''" 62000]
    unfolding reading by blast
qed

lemma run_buffer_bounded:
  "tickCount s \<le> tickBufferSize \<Longrightarrow> tickCount (run_buffer cfg es s) \<le> tickBufferSize"
proof (induction es arbitrary: s)
  case Nil
  then show ?case by simp
next
  case (Cons e es)
  show ?case
  proof (cases e)
    case (TickArrived tickJson)
    have "tickCount (CollectTickData tickJson s) \<le> tickBufferSize"
      using Cons.prems by (simp add: tickCount_CollectTickData)
    then show ?thesis
      using TickArrived Cons.IH by simp
  next
    case (UploadAttempt upload clock)
    have "tickCount (fst (SendTickData cfg upload clock s)) \<le> tickBufferSize"
      using Cons.prems tickCount_SendTickData_le [of cfg upload clock s] by linarith
    then show ?thesis
      using UploadAttempt Cons.IH by simp
  qed
qed

text \<open>
  C5. Under every interleaving of collected ticks and upload attempts (answered or
  not) the number of buffered ticks stays at or below the capacity 500, from the
  initial state and from any state within the bound; and a tick that arrives while the
  buffer is at capacity leaves the state as it was, so it is not buffered.
  \<^verbatim>\<open>CollectTickData\<close> is the same in both versions.
\<close>

theorem tick_buffer_never_exceeds_capacity:
  "tickCount (run_buffer cfg es initial_state) \<le> 500 \<and>
   (tickCount s \<le> tickBufferSize \<longrightarrow> tickCount (run_buffer cfg es s) \<le> tickBufferSize) \<and>
   (tickCount s = tickBufferSize \<longrightarrow> CollectTickData tickJson s = s)"
proof -
  have "tickCount (run_buffer cfg es initial_state) \<le> tickBufferSize"
    by (rule run_buffer_bounded) (simp add: initial_state_def)
  then have "tickCount (run_buffer cfg es initial_state) \<le> 500"
    by (simp add: tickBufferSize_def)
  moreover have "tickCount s \<le> tickBufferSize \<longrightarrow>
      tickCount (run_buffer cfg es s) \<le> tickBufferSize"
    by (simp add: run_buffer_bounded)
  moreover have "tickCount s = tickBufferSize \<longrightarrow> CollectTickData tickJson s = s"
    by (simp add: CollectTickData_at_capacity)
  ultimately show ?thesis
    by blast
qed

theorem tick_buffer_never_exceeds_capacity_witness:
  "tickCount full_state \<le> tickBufferSize \<and> tickCount full_state = tickBufferSize \<and>
   tickCount (run_buffer default_config
     [TickArrived ''{}'', UploadAttempt web_failed 61000, TickArrived ''{}'',
      UploadAttempt web_ok 62000, TickArrived ''{}''] full_state) \<le> tickBufferSize \<and>
   CollectTickData ''{}'' full_state = full_state"
proof -
  have full: "tickCount full_state = tickBufferSize"
    by (simp add: full_state_def tickBufferSize_def)
  show ?thesis
    using full
      tick_buffer_never_exceeds_capacity [of default_config
        "[TickArrived ''{}'', UploadAttempt web_failed 61000, TickArrived ''{}'',
          UploadAttempt web_ok 62000, TickArrived ''{}'']" full_state "''{}''"]
    by (simp del: run_buffer.simps)
qed

subsection \<open>String functions and field extraction\<close>

lemma StringSubstr_one:
  "StringSubstr s i 1 = (if 0 \<le> i \<and> i < StringLen s then [s ! nat i] else [])"
  by (auto simp add: StringSubstr_def StringLen_def take_Suc_conv_app_nth hd_drop_conv_nth
      take_Suc nat_less_iff)

lemma StringSubstr_butlast:
  "2 \<le> length v \<Longrightarrow> StringSubstr v 0 (StringLen v - 1) = butlast v"
  by (simp add: StringSubstr_def StringLen_def butlast_conv_take nat_diff_distrib')

lemma StringSubstr_last:
  "StringSubstr v (StringLen v - 1) 1 = (if v = [] then [] else [last v])"
  by (auto simp add: StringSubstr_one StringLen_def last_conv_nth nat_diff_distrib')

lemma trim_trailing_v2_returns:
  "v = [] \<or> (hd v \<noteq> CHR '' '' \<and> hd v \<noteq> CHR 0x22) \<Longrightarrow> \<exists>r. trim_trailing_v2 v = Some r"
proof (induction "length v" arbitrary: v rule: less_induct)
  case less
  show ?case
  proof (cases "v \<noteq> [] \<and> (last v = CHR '' '' \<or> last v = CHR 0x22)")
    case False
    then have "trim_trailing_v2 v = Some v"
      by (subst trim_trailing_v2.simps) (auto simp add: StringSubstr_last)
    then show ?thesis by blast
  next
    case True
    then have two: "2 \<le> length v"
      using less.prems by (cases v rule: rev_cases; cases "butlast v") auto
    have step: "trim_trailing_v2 v = trim_trailing_v2 (butlast v)"
      using True two
      by (subst trim_trailing_v2.simps) (auto simp add: StringSubstr_last StringSubstr_butlast)
    have "hd (butlast v) = hd v" "butlast v \<noteq> []"
      using two by (cases v; cases "tl v"; simp)+
    then have "\<exists>r. trim_trailing_v2 (butlast v) = Some r"
      using less.hyps [of "butlast v"] less.prems True by auto
    then show ?thesis
      by (simp add: step)
  qed
qed

lemma skip_leading_v2_stops:
  "StringSubstr json (skip_leading_v2 json start) 1 \<noteq> '' '' \<and>
   StringSubstr json (skip_leading_v2 json start) 1 \<noteq> [CHR 0x22]"
proof (induction json start rule: skip_leading_v2.induct)
  case (1 json start)
  then show ?case
    by (subst (1 2) skip_leading_v2.simps) auto
qed

lemma StringSubstr_head:
  "StringSubstr s i n = [] \<or> hd (StringSubstr s i n) = s ! nat i \<and> 0 \<le> i \<and> i < StringLen s"
  by (auto simp add: StringSubstr_def StringLen_def hd_drop_conv_nth nat_less_iff)

lemma ExtractValue_v2_returns: "\<exists>v. ExtractValue_v2 json key = Some v"
proof -
  have "\<exists>r. trim_trailing_v2 (StringSubstr json (skip_leading_v2 json start) n) = Some r"
    for start n
    using skip_leading_v2_stops [of json start]
      StringSubstr_head [of json "skip_leading_v2 json start" n]
    by (intro trim_trailing_v2_returns) (auto simp add: StringSubstr_one split: if_splits)
  then show ?thesis
    by (simp add: ExtractValue_v2_def Let_def)
qed

lemma StringFind_from_range:
  "StringFind_from s pat i = - 1 \<or> i \<le> StringFind_from s pat i"
  by (induction s pat i rule: StringFind_from.induct) (auto split: if_splits)

lemma prefix_iff_take: "prefix pat s \<longleftrightarrow> take (length pat) s = pat"
  by (metis append_eq_conv_conj prefix_def take_is_prefix)

lemma StringFind_from_sublist:
  "pat \<noteq> [] \<Longrightarrow> 0 \<le> i \<Longrightarrow> (0 \<le> StringFind_from s pat i) = sublist pat s"
proof (induction s pat i rule: StringFind_from.induct)
  case (1 pat i)
  then show ?case by simp
next
  case (2 c cs pat i)
  show ?case
  proof (cases "take (length pat) (c # cs) = pat")
    case True
    then have "prefix pat (c # cs)"
      by (simp add: prefix_iff_take)
    then show ?thesis
      using True 2 by (simp add: sublist_Cons_right)
  next
    case False
    then have "\<not> prefix pat (c # cs)"
      by (simp add: prefix_iff_take)
    then show ?thesis
      using False 2 by (simp add: sublist_Cons_right)
  qed
qed

lemma StringFind_sublist: "pat \<noteq> [] \<Longrightarrow> (0 \<le> StringFind s pat) = sublist pat s"
  by (simp add: StringFind_def StringFind_from_sublist)


lemma StringSubstr_at:
  "StringSubstr s (int n) 1 = (if n < length s then [s ! n] else [])"
  by (simp add: StringSubstr_one StringLen_def)

lemma StringSubstr_take_drop:
  "n < length s \<Longrightarrow> 0 < m \<Longrightarrow> StringSubstr s (int n) (int m) = take m (drop n s)"
  by (simp add: StringSubstr_def StringLen_def)

lemma scan_end_v1_toggle:
  "end < StringLen json \<Longrightarrow> StringSubstr json end 1 = [CHR 0x22] \<Longrightarrow>
   end \<noteq> 0 \<Longrightarrow> StringSubstr json (end - 1) 1 \<noteq> [CHR 0x5C] \<Longrightarrow>
   scan_end_v1 json end inString = scan_end_v1 json (end + 1) (\<not> inString)"
  by (subst scan_end_v1.simps) simp

lemma scan_end_v1_inside_string:
  "end < StringLen json \<Longrightarrow> StringSubstr json end 1 \<noteq> [CHR 0x22] \<Longrightarrow>
   scan_end_v1 json end True = scan_end_v1 json (end + 1) True"
  by (subst scan_end_v1.simps) simp

lemma scan_end_v1_delimiter:
  "end < StringLen json \<Longrightarrow>
   StringSubstr json end 1 = '','' \<or> StringSubstr json end 1 = ''}'' \<Longrightarrow>
   scan_end_v1 json end False = end"
  by (subst scan_end_v1.simps) auto

lemma scan_end_v1_at_end:
  "\<not> end < StringLen json \<Longrightarrow> scan_end_v1 json end inString = end"
  by (subst scan_end_v1.simps) simp

lemma quoted_chars:
  "StringSubstr (A @ c # v @ d # rest) (int (length A)) 1 = [c]"
  "k < length v \<Longrightarrow>
     StringSubstr (A @ c # v @ d # rest) (int (length A + 1 + k)) 1 = [v ! k]"
  "StringSubstr (A @ c # v @ d # rest) (int (length A + 1 + length v)) 1 = [d]"
  "rest \<noteq> [] \<Longrightarrow>
     StringSubstr (A @ c # v @ d # rest) (int (length A + 1 + length v + 1)) 1 = [hd rest]"
proof -
  let ?json = "A @ c # v @ d # rest"
  show "StringSubstr ?json (int (length A)) 1 = [c]"
    using StringSubstr_at [of ?json "length A"] by simp
  show "StringSubstr ?json (int (length A + 1 + k)) 1 = [v ! k]" if "k < length v"
    using that StringSubstr_at [of ?json "length A + 1 + k"] by (simp add: nth_append)
  show "StringSubstr ?json (int (length A + 1 + length v)) 1 = [d]"
    using StringSubstr_at [of ?json "length A + 1 + length v"] by (simp add: nth_append)
  show "StringSubstr ?json (int (length A + 1 + length v + 1)) 1 = [hd rest]" if "rest \<noteq> []"
    using that StringSubstr_at [of ?json "length A + 1 + length v + 1"]
    by (simp add: nth_append hd_conv_nth)
qed

lemma quoted_chars_before:
  "A \<noteq> [] \<Longrightarrow> StringSubstr (A @ c # v @ d # rest) (int (length A) - 1) 1 = [last A]"
  "v \<noteq> [] \<Longrightarrow>
     StringSubstr (A @ c # v @ d # rest) (int (length A + 1 + length v) - 1) 1 = [last v]"
proof -
  let ?json = "A @ c # v @ d # rest"
  show "StringSubstr ?json (int (length A) - 1) 1 = [last A]" if "A \<noteq> []"
  proof -
    have before: "int (length A) - 1 = int (length A - 1)"
      using that by (simp add: of_nat_diff Suc_leI)
    have "StringSubstr ?json (int (length A - 1)) 1 = [last A]"
      using that by (simp only: StringSubstr_at) (simp add: nth_append last_conv_nth)
    then show ?thesis
      by (simp only: before)
  qed
  show "StringSubstr ?json (int (length A + 1 + length v) - 1) 1 = [last v]" if "v \<noteq> []"
  proof -
    have before: "int (length A + 1 + length v) - 1 = int (length A + length v)"
      by simp
    have "StringSubstr ?json (int (length A + length v)) 1 = [last v]"
      using that by (simp only: StringSubstr_at) (simp add: nth_append last_conv_nth nth_Cons')
    then show ?thesis
      by (simp only: before)
  qed
qed

lemma StringSubstr_quoted:
  "StringSubstr (A @ CHR 0x22 # v @ CHR 0x22 # rest) (int (length A)) (int (length v + 2)) =
     CHR 0x22 # v @ [CHR 0x22]"
  using StringSubstr_take_drop [of "length A" "A @ CHR 0x22 # v @ CHR 0x22 # rest" "length v + 2"]
  by simp

lemma scan_end_v1_inside:
  assumes "CHR 0x22 \<notin> set v" and "k \<le> length v"
  shows "scan_end_v1 (A @ CHR 0x22 # v @ CHR 0x22 # rest) (int (length A + 1 + k)) True =
         scan_end_v1 (A @ CHR 0x22 # v @ CHR 0x22 # rest) (int (length A + 1 + length v)) True"
  using assms(2)
proof (induction "length v - k" arbitrary: k)
  case 0
  then show ?case by simp
next
  case (Suc d)
  let ?json = "A @ CHR 0x22 # v @ CHR 0x22 # rest"
  have k: "k < length v"
    using Suc.hyps(2) by simp
  have inside: "int (length A + 1 + k) < StringLen ?json"
    using k by (simp add: StringLen_def)
  have "StringSubstr ?json (int (length A + 1 + k)) 1 = [v ! k]"
    using k by (rule quoted_chars)
  moreover have "v ! k \<noteq> CHR 0x22"
    using assms(1) k by (metis nth_mem)
  ultimately have "StringSubstr ?json (int (length A + 1 + k)) 1 \<noteq> [CHR 0x22]"
    by simp
  with inside have "scan_end_v1 ?json (int (length A + 1 + k)) True =
      scan_end_v1 ?json (int (length A + 1 + k) + 1) True"
    by (rule scan_end_v1_inside_string)
  also have "int (length A + 1 + k) + 1 = int (length A + 1 + Suc k)"
    by simp
  also have "scan_end_v1 ?json (int (length A + 1 + Suc k)) True =
      scan_end_v1 ?json (int (length A + 1 + length v)) True"
    using Suc.hyps(2) k by (intro Suc.hyps(1)) simp_all
  finally show ?case .
qed

lemma scan_end_v1_quoted:
  assumes "CHR 0x22 \<notin> set v" and "v \<noteq> []" and "last v \<noteq> CHR 0x5C"
    and "A \<noteq> []" and "last A \<noteq> CHR 0x5C"
    and "rest = [] \<or> hd rest = CHR '','' \<or> hd rest = CHR ''}''"
  shows "scan_end_v1 (A @ CHR 0x22 # v @ CHR 0x22 # rest) (int (length A)) False =
         int (length A + 1 + length v + 1)"
proof -
  let ?json = "A @ CHR 0x22 # v @ CHR 0x22 # rest"
  let ?n = "length A"
  have open_quote: "scan_end_v1 ?json (int ?n) False = scan_end_v1 ?json (int ?n + 1) True"
  proof -
    have "int ?n < StringLen ?json"
      by (simp add: StringLen_def)
    moreover have "StringSubstr ?json (int ?n) 1 = [CHR 0x22]"
      by (rule quoted_chars)
    moreover have "int ?n \<noteq> 0"
      using assms(4) by simp
    moreover have "StringSubstr ?json (int ?n - 1) 1 = [last A]"
      using assms(4) by (rule quoted_chars_before)
    then have "StringSubstr ?json (int ?n - 1) 1 \<noteq> [CHR 0x5C]"
      using assms(5) by simp
    ultimately show ?thesis
      using scan_end_v1_toggle [of "int ?n" ?json False] by simp
  qed
  have body: "scan_end_v1 ?json (int ?n + 1) True =
      scan_end_v1 ?json (int (?n + 1 + length v)) True"
  proof -
    have first_char: "int ?n + 1 = int (?n + 1 + 0)"
      by simp
    show ?thesis
      unfolding first_char by (rule scan_end_v1_inside [OF assms(1)]) simp
  qed
  have close_quote: "scan_end_v1 ?json (int (?n + 1 + length v)) True =
      scan_end_v1 ?json (int (?n + 1 + length v + 1)) False"
  proof -
    have "int (?n + 1 + length v) < StringLen ?json"
      by (simp add: StringLen_def)
    moreover have "StringSubstr ?json (int (?n + 1 + length v)) 1 = [CHR 0x22]"
      by (rule quoted_chars)
    moreover have "int (?n + 1 + length v) \<noteq> 0"
      by simp
    moreover have "StringSubstr ?json (int (?n + 1 + length v) - 1) 1 = [last v]"
      using assms(2) by (rule quoted_chars_before)
    then have "StringSubstr ?json (int (?n + 1 + length v) - 1) 1 \<noteq> [CHR 0x5C]"
      using assms(3) by simp
    ultimately have "scan_end_v1 ?json (int (?n + 1 + length v)) True =
        scan_end_v1 ?json (int (?n + 1 + length v) + 1) (\<not> True)"
      by (rule scan_end_v1_toggle)
    moreover have "int (?n + 1 + length v) + 1 = int (?n + 1 + length v + 1)"
      by simp
    ultimately show ?thesis
      by (simp only: not_True_eq_False)
  qed
  have stop: "scan_end_v1 ?json (int (?n + 1 + length v + 1)) False =
      int (?n + 1 + length v + 1)"
  proof (cases "rest = []")
    case True
    then have "\<not> int (?n + 1 + length v + 1) < StringLen ?json"
      by (simp add: StringLen_def)
    then show ?thesis
      by (rule scan_end_v1_at_end)
  next
    case False
    then have "int (?n + 1 + length v + 1) < StringLen ?json"
      by (simp add: StringLen_def)
    moreover have "StringSubstr ?json (int (?n + 1 + length v + 1)) 1 = [hd rest]"
      using False by (rule quoted_chars)
    then have "StringSubstr ?json (int (?n + 1 + length v + 1)) 1 = '','' \<or>
        StringSubstr ?json (int (?n + 1 + length v + 1)) 1 = ''}''"
      using assms(6) False by auto
    ultimately show ?thesis
      by (rule scan_end_v1_delimiter)
  qed
  show ?thesis
    by (simp only: open_quote body close_quote stop)
qed

text \<open>
  The older \<^verbatim>\<open>ExtractValue\<close> on a quoted value: when the first occurrence of the key
  token is followed at once by a quote, a non-empty text \<open>v\<close> without quotes that does
  not end in a backslash, a closing quote, and then the end of the input, a comma or a
  closing brace, the result is \<open>v\<close>, whatever commas and braces \<open>v\<close> contains.
\<close>

lemma ExtractValue_v1_quoted:
  assumes json: "json = pre @ [CHR 0x22] @ key @ [CHR 0x22, CHR '':''] @ [CHR 0x22] @ v @ [CHR 0x22] @ rest"
    and first: "StringFind json ([CHR 0x22] @ key @ [CHR 0x22, CHR '':'']) = int (length pre)"
    and v: "CHR 0x22 \<notin> set v" "v \<noteq> []" "last v \<noteq> CHR 0x5C"
    and rest: "rest = [] \<or> hd rest = CHR '','' \<or> hd rest = CHR ''}''"
  shows "ExtractValue_v1 json key = v"
proof -
  let ?search = "[CHR 0x22] @ key @ [CHR 0x22, CHR '':'']"
  let ?A = "pre @ ?search"
  let ?quoted = "CHR 0x22 # v @ [CHR 0x22]"
  have shape: "json = ?A @ CHR 0x22 # v @ CHR 0x22 # rest"
    using json by simp
  have start: "int (length pre) + StringLen ?search = int (length ?A)"
    by (simp add: StringLen_def)
  have scanned: "scan_end_v1 json (int (length ?A)) False = int (length ?A + 1 + length v + 1)"
    by (subst shape) (rule scan_end_v1_quoted; use v rest in simp)
  have width: "int (length ?A + 1 + length v + 1) - int (length ?A) = int (length v + 2)"
    by simp
  have extracted: "StringSubstr json (int (length ?A)) (int (length v + 2)) = ?quoted"
    by (subst shape) (rule StringSubstr_quoted)
  have "StringSubstr ?quoted (int 1) (int (length v)) = take (length v) (drop 1 ?quoted)"
    using v(2) by (intro StringSubstr_take_drop) simp_all
  moreover have "StringLen ?quoted - 2 = int (length v)"
    by (simp add: StringLen_def)
  ultimately have inner: "StringSubstr ?quoted 1 (StringLen ?quoted - 2) = v"
    by simp
  have quotes: "StringSubstr ?quoted 0 1 = [CHR 0x22]"
    "StringSubstr ?quoted (StringLen ?quoted - 1) 1 = [CHR 0x22]"
    using StringSubstr_at [of ?quoted 0] by (simp_all add: StringSubstr_last)
  have "ExtractValue_v1 json key =
      (let value = StringSubstr json (int (length ?A))
                     (scan_end_v1 json (int (length ?A)) False - int (length ?A))
       in if StringSubstr value 0 1 = [CHR 0x22] \<and>
             StringSubstr value (StringLen value - 1) 1 = [CHR 0x22]
          then StringSubstr value 1 (StringLen value - 2)
          else value)"
    unfolding ExtractValue_v1_def Let_def first start by simp
  also have "\<dots> = v"
    by (simp only: scanned width extracted Let_def quotes inner simp_thms if_True)
  finally show ?thesis .
qed

text \<open>
  C2. On the input \<^verbatim>\<open>{"k":"a,b"}\<close> with key \<^verbatim>\<open>k\<close> the later \<^verbatim>\<open>ExtractValue\<close> returns
  \<^verbatim>\<open>a\<close>: it has no notion of being inside a quoted string and stops at the comma. The
  older \<^verbatim>\<open>ExtractValue\<close> returns \<^verbatim>\<open>a,b\<close> on the same input. The same happens on a
  poll response whose \<^verbatim>\<open>direction\<close> field holds \<^verbatim>\<open>"a,b"\<close>.
\<close>

theorem ExtractValue_quoted_comma:
  \<open>ExtractValue_v2 ''{"k":"a,b"}'' ''k'' = Some ''a'' \<and>
   ExtractValue_v1 ''{"k":"a,b"}'' ''k'' = ''a,b'' \<and>
   ExtractValue_v2 ''{"direction":"a,b","entry_price":1.1025}'' ''direction'' = Some ''a'' \<and>
   ExtractValue_v1 ''{"direction":"a,b","entry_price":1.1025}'' ''direction'' = ''a,b''\<close>
proof -
  have later: \<open>ExtractValue_v2 ''{"k":"a,b"}'' ''k'' = Some ''a''\<close>
    \<open>ExtractValue_v2 ''{"direction":"a,b","entry_price":1.1025}'' ''direction'' = Some ''a''\<close>
    by code_simp+
  have older: \<open>ExtractValue_v1 ''{"k":"a,b"}'' ''k'' = ''a,b''\<close>
    by (rule ExtractValue_v1_quoted [where pre = "''{''" and rest = "''}''"])
       (simp_all add: StringFind_def)
  have older_poll:
    \<open>ExtractValue_v1 ''{"direction":"a,b","entry_price":1.1025}'' ''direction'' = ''a,b''\<close>
    by (rule ExtractValue_v1_quoted
          [where pre = "''{''" and rest = \<open>'',"entry_price":1.1025}''\<close>])
       (simp_all add: StringFind_def)
  from later older older_poll show ?thesis
    by simp
qed

subsection \<open>Signal validation\<close>

lemma CountOpenPositions_loop_filter:
  "CountOpenPositions_loop cfg os count = count + int (length (filter (own_order cfg) os))"
proof (induction cfg os count rule: CountOpenPositions_loop.induct)
  case (1 cfg count)
  show ?case by simp
next
  case (2 cfg os count)
  then show ?case by (simp add: own_order_def)
next
  case (3 cfg ord os count)
  then show ?case by (simp add: own_order_def)
qed

lemma CountOpenPositions_filter:
  "CountOpenPositions cfg trades = int (length (filter (own_order cfg) trades))"
  by (simp add: CountOpenPositions_def CountOpenPositions_loop_filter flip: rev_filter)

lemma count_three_open: "CountOpenPositions default_config three_open = 3"
  by (simp add: CountOpenPositions_filter three_open_def own_order_def ea_order_def
        foreign_order_def default_config_def)

lemma count_no_open: "CountOpenPositions cfg [] = 0"
  by (simp add: CountOpenPositions_def)

lemma ValidateSignal_spread:
  "double_of_int (MaxSpread cfg) < MODE_SPREAD m \<Longrightarrow>
   ValidateSignal cfg m trades direction entryPrice sl tp =
     Rejected (SpreadTooHigh (MODE_SPREAD m))"
  by (simp add: ValidateSignal_def)

lemma ValidateSignal_positions:
  "MODE_SPREAD m \<le> double_of_int (MaxSpread cfg) \<Longrightarrow>
   MaxPositions cfg \<le> CountOpenPositions cfg trades \<Longrightarrow>
   ValidateSignal cfg m trades direction entryPrice sl tp =
     Rejected (TooManyOpenPositions (CountOpenPositions cfg trades))"
  by (simp add: ValidateSignal_def Let_def)

lemma ValidateSignal_direction:
  "MODE_SPREAD m \<le> double_of_int (MaxSpread cfg) \<Longrightarrow>
   CountOpenPositions cfg trades < MaxPositions cfg \<Longrightarrow>
   direction \<noteq> ''BUY'' \<Longrightarrow> direction \<noteq> ''SELL'' \<Longrightarrow>
   ValidateSignal cfg m trades direction entryPrice sl tp =
     Rejected (InvalidDirection direction)"
  by (simp add: ValidateSignal_def Let_def)



lemma ValidateSignal_cases:
  "ValidateSignal cfg m trades direction entryPrice sl tp =
     (if double_of_int (MaxSpread cfg) < MODE_SPREAD m
      then Rejected (SpreadTooHigh (MODE_SPREAD m))
      else if MaxPositions cfg \<le> CountOpenPositions cfg trades
      then Rejected (TooManyOpenPositions (CountOpenPositions cfg trades))
      else if direction \<noteq> ''BUY'' \<and> direction \<noteq> ''SELL''
      then Rejected (InvalidDirection direction)
      else if direction = ''BUY'' \<and>
              entryPrice > MODE_ASK m + double_of_int (Slippage cfg) * Point m
      then Rejected BuyEntryPriceTooHigh
      else if direction = ''SELL'' \<and>
              entryPrice < MODE_BID m - double_of_int (Slippage cfg) * Point m
      then Rejected SellEntryPriceTooLow
      else Accepted)"
  by (simp add: ValidateSignal_def Let_def)

text \<open>
  C6. \<^verbatim>\<open>ValidateSignal\<close> checks spread, open-position count, direction and price in
  this order and stops at the first failure. A spread above \<open>MaxSpread\<close> rejects the
  signal for its spread whatever the other arguments are. With the spread within the
  limit, a count of selectable open orders of this symbol and magic number that reaches
  \<open>MaxPositions\<close> rejects it for the position count whatever direction and prices are.
  A rejection for the direction happens only after the first two checks have passed,
  and a verdict of the price check only after the first three have.
\<close>

theorem ValidateSignal_check_order:
  "(double_of_int (MaxSpread cfg) < MODE_SPREAD m \<longrightarrow>
      ValidateSignal cfg m trades direction entryPrice sl tp =
        Rejected (SpreadTooHigh (MODE_SPREAD m))) \<and>
   (MODE_SPREAD m \<le> double_of_int (MaxSpread cfg) \<and>
    MaxPositions cfg \<le> int (length (filter (own_order cfg) trades)) \<longrightarrow>
      ValidateSignal cfg m trades direction entryPrice sl tp =
        Rejected (TooManyOpenPositions (int (length (filter (own_order cfg) trades))))) \<and>
   (ValidateSignal cfg m trades direction entryPrice sl tp =
      Rejected (InvalidDirection direction) \<longrightarrow>
      MODE_SPREAD m \<le> double_of_int (MaxSpread cfg) \<and>
      int (length (filter (own_order cfg) trades)) < MaxPositions cfg) \<and>
   (ValidateSignal cfg m trades direction entryPrice sl tp = Rejected BuyEntryPriceTooHigh \<or>
    ValidateSignal cfg m trades direction entryPrice sl tp = Rejected SellEntryPriceTooLow \<or>
    ValidateSignal cfg m trades direction entryPrice sl tp = Accepted \<longrightarrow>
      MODE_SPREAD m \<le> double_of_int (MaxSpread cfg) \<and>
      int (length (filter (own_order cfg) trades)) < MaxPositions cfg \<and>
      (direction = ''BUY'' \<or> direction = ''SELL''))"
proof -
  have spread: "double_of_int (MaxSpread cfg) < MODE_SPREAD m \<longrightarrow>
      ValidateSignal cfg m trades direction entryPrice sl tp =
        Rejected (SpreadTooHigh (MODE_SPREAD m))"
    by (simp add: ValidateSignal_spread)
  have positions: "MODE_SPREAD m \<le> double_of_int (MaxSpread cfg) \<and>
      MaxPositions cfg \<le> int (length (filter (own_order cfg) trades)) \<longrightarrow>
      ValidateSignal cfg m trades direction entryPrice sl tp =
        Rejected (TooManyOpenPositions (int (length (filter (own_order cfg) trades))))"
    using ValidateSignal_positions [of m cfg trades direction entryPrice sl tp]
    by (simp add: CountOpenPositions_filter)
  have direction: "ValidateSignal cfg m trades direction entryPrice sl tp =
      Rejected (InvalidDirection direction) \<longrightarrow>
      MODE_SPREAD m \<le> double_of_int (MaxSpread cfg) \<and>
      int (length (filter (own_order cfg) trades)) < MaxPositions cfg"
    by (simp add: ValidateSignal_cases CountOpenPositions_filter not_less split: if_splits)
  have price: "ValidateSignal cfg m trades direction entryPrice sl tp =
        Rejected BuyEntryPriceTooHigh \<or>
      ValidateSignal cfg m trades direction entryPrice sl tp = Rejected SellEntryPriceTooLow \<or>
      ValidateSignal cfg m trades direction entryPrice sl tp = Accepted \<longrightarrow>
      MODE_SPREAD m \<le> double_of_int (MaxSpread cfg) \<and>
      int (length (filter (own_order cfg) trades)) < MaxPositions cfg \<and>
      (direction = ''BUY'' \<or> direction = ''SELL'')"
    by (auto simp add: ValidateSignal_cases CountOpenPositions_filter not_less split: if_splits)
  from spread positions direction price show ?thesis
    by blast
qed

theorem ValidateSignal_check_order_witness:
  "double_of_int (MaxSpread default_config) < MODE_SPREAD wide_market \<and>
   MaxSpread default_config = 20 \<and> MODE_SPREAD wide_market = double_of_int 25 \<and>
   ValidateSignal default_config wide_market [] ''BUY''
       (double_of_real 1.1) (double_of_real 1.09) (double_of_real 1.12) =
     Rejected (SpreadTooHigh (double_of_int 25)) \<and>
   MODE_SPREAD calm_market \<le> double_of_int (MaxSpread default_config) \<and>
   MaxPositions default_config = 3 \<and>
   int (length (filter (own_order default_config) three_open)) = 3 \<and>
   ValidateSignal default_config calm_market three_open ''BUY''
       (double_of_real 1.1) (double_of_real 1.09) (double_of_real 1.12) =
     Rejected (TooManyOpenPositions 3)"
proof -
  have wide: "MaxSpread default_config = 20" "MODE_SPREAD wide_market = double_of_int 25"
    by (simp_all add: default_config_def wide_market_def)
  have above: "double_of_int (MaxSpread default_config) < MODE_SPREAD wide_market"
    by (simp add: default_config_def wide_market_def double_eval)
  have calm: "MODE_SPREAD calm_market \<le> double_of_int (MaxSpread default_config)"
    by (simp add: default_config_def calm_market_def double_eval)
  have limit: "MaxPositions default_config = 3"
    by (simp add: default_config_def)
  have three: "int (length (filter (own_order default_config) three_open)) = 3"
    using count_three_open by (simp add: CountOpenPositions_filter)
  show ?thesis
    using wide above calm limit three
      ValidateSignal_check_order
        [of default_config wide_market "[]" "''BUY''" "double_of_real 1.1"
           "double_of_real 1.09" "double_of_real 1.12"]
      ValidateSignal_check_order
        [of default_config calm_market three_open "''BUY''" "double_of_real 1.1"
           "double_of_real 1.09" "double_of_real 1.12"]
    by simp
qed

lemma calm_market_passes:
  "MODE_SPREAD calm_market \<le> double_of_int (MaxSpread default_config)"
  "CountOpenPositions default_config [] < MaxPositions default_config"
  by (simp_all add: default_config_def calm_market_def count_no_open double_eval)






text \<open>
  Where the rounding decides. With exact arithmetic 1.0998 - 0.003 would be 1.0968 and
  1.2 + 0.003 would be 1.203, and both signals below would pass; the program computes
  the doubles next above 1.0968 and next below 1.203 and rejects them. With the bid at
  1 the rounded difference is the double 0.997 itself, and a selling price of 0.997 is
  accepted.
\<close>

lemma ValidateSignal_rounding_decides:
  "ValidateSignal default_config calm_market [] ''SELL''
     (double_of_real 1.0968) sl tp = Rejected SellEntryPriceTooLow"
  "ValidateSignal default_config (calm_market\<lparr>MODE_ASK := double_of_real 1.2\<rparr>) [] ''BUY''
     (double_of_real 1.203) sl tp = Rejected BuyEntryPriceTooHigh"
  "ValidateSignal default_config (calm_market\<lparr>MODE_BID := double_of_real 1\<rparr>) [] ''SELL''
     (double_of_real 0.997) sl tp = Accepted"
  by (simp_all add: ValidateSignal_def default_config_def calm_market_def count_no_open
      double_eval)

text \<open>
  C10. The direction is compared with \<^verbatim>\<open>BUY\<close> and \<^verbatim>\<open>SELL\<close> character by character:
  once the spread and position-count checks have passed, every other direction string
  is rejected as an invalid direction.
\<close>

theorem ValidateSignal_direction_exact:
  assumes "MODE_SPREAD m \<le> double_of_int (MaxSpread cfg)"
    and "CountOpenPositions cfg trades < MaxPositions cfg"
    and "direction \<noteq> ''BUY''" and "direction \<noteq> ''SELL''"
  shows "ValidateSignal cfg m trades direction entryPrice sl tp =
           Rejected (InvalidDirection direction)"
  using assms by (rule ValidateSignal_direction)

theorem ValidateSignal_direction_exact_witness:
  "MODE_SPREAD calm_market \<le> double_of_int (MaxSpread default_config) \<and>
   CountOpenPositions default_config [] < MaxPositions default_config \<and>
   ValidateSignal default_config calm_market [] ''Buy''
       (double_of_real 1.1) (double_of_real 1.09) (double_of_real 1.12) =
     Rejected (InvalidDirection ''Buy'') \<and>
   ValidateSignal default_config calm_market [] ''buy''
       (double_of_real 1.1) (double_of_real 1.09) (double_of_real 1.12) =
     Rejected (InvalidDirection ''buy'') \<and>
   ValidateSignal default_config calm_market [] ''sell''
       (double_of_real 1.1) (double_of_real 1.09) (double_of_real 1.12) =
     Rejected (InvalidDirection ''sell'') \<and>
   ValidateSignal default_config calm_market [] '' BUY ''
       (double_of_real 1.1) (double_of_real 1.09) (double_of_real 1.12) =
     Rejected (InvalidDirection '' BUY '')"
  using calm_market_passes
    ValidateSignal_direction_exact
      [OF calm_market_passes, of "''Buy''" "double_of_real 1.1" "double_of_real 1.09"
         "double_of_real 1.12"]
    ValidateSignal_direction_exact
      [OF calm_market_passes, of "''buy''" "double_of_real 1.1" "double_of_real 1.09"
         "double_of_real 1.12"]
    ValidateSignal_direction_exact
      [OF calm_market_passes, of "''sell''" "double_of_real 1.1" "double_of_real 1.09"
         "double_of_real 1.12"]
    ValidateSignal_direction_exact
      [OF calm_market_passes, of "'' BUY ''" "double_of_real 1.1" "double_of_real 1.09"
         "double_of_real 1.12"]
  by simp

subsection \<open>Signal polling\<close>

lemma DecodeSignal_v2_returns: "\<exists>sg. DecodeSignal_v2 StringToDouble signal_text = Some sg"
proof -
  obtain d e s t c where
    "ExtractValue_v2 signal_text ''direction'' = Some d"
    "ExtractValue_v2 signal_text ''entry_price'' = Some e"
    "ExtractValue_v2 signal_text ''sl'' = Some s"
    "ExtractValue_v2 signal_text ''tp'' = Some t"
    "ExtractValue_v2 signal_text ''confidence'' = Some c"
    using ExtractValue_v2_returns by metis
  then show ?thesis
    by (simp add: DecodeSignal_v2_def)
qed

lemma validated_with_v1:
  "SendHttpRequest (pe_signal pe) \<noteq> '''' \<Longrightarrow>
   SendHttpRequest (pe_signal pe) \<noteq> ''no_signal'' \<Longrightarrow>
   validated_with (CheckForSignals_v1 StringToDouble cfg pe) =
     Some (DecodeSignal_v1 StringToDouble (SendHttpRequest (pe_signal pe)),
           ValidateSignal cfg (pe_market pe) (pe_trades pe)
             (sig_direction (DecodeSignal_v1 StringToDouble (SendHttpRequest (pe_signal pe))))
             (sig_entryPrice (DecodeSignal_v1 StringToDouble (SendHttpRequest (pe_signal pe))))
             (sig_sl (DecodeSignal_v1 StringToDouble (SendHttpRequest (pe_signal pe))))
             (sig_tp (DecodeSignal_v1 StringToDouble (SendHttpRequest (pe_signal pe)))))"
  by (simp add: CheckForSignals_v1_def Let_def split: verdict.split)

lemma CheckForSignals_v1_skip:
  "CheckForSignals_v1 StringToDouble cfg pe = NoSignal \<longleftrightarrow>
   SendHttpRequest (pe_signal pe) = '''' \<or> SendHttpRequest (pe_signal pe) = ''no_signal''"
  by (simp add: CheckForSignals_v1_def Let_def split: verdict.split)

lemma CheckForSignals_v2_skipped:
  "SendHttpRequest (pe_signal pe) = '''' \<or> sublist ''no_signal'' (SendHttpRequest (pe_signal pe)) \<Longrightarrow>
   CheckForSignals_v2 StringToDouble cfg pe = Some NoSignal"
  by (simp add: CheckForSignals_v2_def Let_def StringFind_sublist)

lemma CheckForSignals_v2_decoded:
  assumes "SendHttpRequest (pe_signal pe) \<noteq> ''''"
    and "\<not> sublist ''no_signal'' (SendHttpRequest (pe_signal pe))"
  shows "\<exists>out sg. CheckForSignals_v2 StringToDouble cfg pe = Some out \<and>
           DecodeSignal_v2 StringToDouble (SendHttpRequest (pe_signal pe)) = Some sg \<and>
           validated_with out =
             Some (sg, ValidateSignal cfg (pe_market pe) (pe_trades pe)
                         (sig_direction sg) (sig_entryPrice sg) (sig_sl sg) (sig_tp sg))"
proof -
  obtain sg where sg: "DecodeSignal_v2 StringToDouble (SendHttpRequest (pe_signal pe)) = Some sg"
    using DecodeSignal_v2_returns by blast
  show ?thesis
    using assms sg
    by (simp add: CheckForSignals_v2_def Let_def StringFind_sublist split: verdict.split)
qed

lemma CheckForSignals_v2_returns: "\<exists>out. CheckForSignals_v2 StringToDouble cfg pe = Some out"
  using CheckForSignals_v2_skipped [of pe StringToDouble cfg]
    CheckForSignals_v2_decoded [of pe StringToDouble cfg]
  by blast

text \<open>
  C8, as the code has it. The older \<^verbatim>\<open>CheckForSignals\<close> skips decoding, validation and
  execution exactly when the transport result is empty or equal to \<^verbatim>\<open>no_signal\<close>. The
  later one always returns, and skips exactly when the transport result is empty or
  contains \<^verbatim>\<open>no_signal\<close> somewhere. In both, every other response is decoded and the
  decoded fields are what \<^verbatim>\<open>ValidateSignal\<close> judges.
\<close>

theorem CheckForSignals_skip_condition:
  "(CheckForSignals_v1 StringToDouble cfg pe = NoSignal \<longleftrightarrow>
      SendHttpRequest (pe_signal pe) = '''' \<or> SendHttpRequest (pe_signal pe) = ''no_signal'') \<and>
   (SendHttpRequest (pe_signal pe) \<noteq> '''' \<and> SendHttpRequest (pe_signal pe) \<noteq> ''no_signal'' \<longrightarrow>
      validated_with (CheckForSignals_v1 StringToDouble cfg pe) =
        Some (DecodeSignal_v1 StringToDouble (SendHttpRequest (pe_signal pe)),
              ValidateSignal cfg (pe_market pe) (pe_trades pe)
                (sig_direction (DecodeSignal_v1 StringToDouble (SendHttpRequest (pe_signal pe))))
                (sig_entryPrice (DecodeSignal_v1 StringToDouble (SendHttpRequest (pe_signal pe))))
                (sig_sl (DecodeSignal_v1 StringToDouble (SendHttpRequest (pe_signal pe))))
                (sig_tp (DecodeSignal_v1 StringToDouble (SendHttpRequest (pe_signal pe)))))) \<and>
   (\<exists>out. CheckForSignals_v2 StringToDouble cfg pe = Some out \<and>
      (out = NoSignal \<longleftrightarrow>
         SendHttpRequest (pe_signal pe) = '''' \<or>
         sublist ''no_signal'' (SendHttpRequest (pe_signal pe)))) \<and>
   (SendHttpRequest (pe_signal pe) \<noteq> '''' \<and>
    \<not> sublist ''no_signal'' (SendHttpRequest (pe_signal pe)) \<longrightarrow>
      (\<exists>out sg. CheckForSignals_v2 StringToDouble cfg pe = Some out \<and>
         DecodeSignal_v2 StringToDouble (SendHttpRequest (pe_signal pe)) = Some sg \<and>
         validated_with out =
           Some (sg, ValidateSignal cfg (pe_market pe) (pe_trades pe)
                       (sig_direction sg) (sig_entryPrice sg) (sig_sl sg) (sig_tp sg))))"
proof -
  have v2: "\<exists>out. CheckForSignals_v2 StringToDouble cfg pe = Some out \<and>
      (out = NoSignal \<longleftrightarrow>
         SendHttpRequest (pe_signal pe) = '''' \<or>
         sublist ''no_signal'' (SendHttpRequest (pe_signal pe)))"
  proof (cases "SendHttpRequest (pe_signal pe) = '''' \<or>
      sublist ''no_signal'' (SendHttpRequest (pe_signal pe))")
    case True
    then show ?thesis
      using CheckForSignals_v2_skipped [of pe StringToDouble cfg] by simp
  next
    case False
    then obtain out sg where "CheckForSignals_v2 StringToDouble cfg pe = Some out"
      and "validated_with out =
             Some (sg, ValidateSignal cfg (pe_market pe) (pe_trades pe)
                         (sig_direction sg) (sig_entryPrice sg) (sig_sl sg) (sig_tp sg))"
      using CheckForSignals_v2_decoded [of pe StringToDouble cfg] by blast
    then show ?thesis
      using False by auto
  qed
  show ?thesis
    using v2 CheckForSignals_v1_skip [of StringToDouble cfg pe]
      validated_with_v1 [of pe StringToDouble cfg]
      CheckForSignals_v2_decoded [of pe StringToDouble cfg]
    by blast
qed

lemma SendHttpRequest_web_body:
  "CHR 0x00 \<notin> set body \<Longrightarrow> SendHttpRequest (web_body body) = body"
  by (cases body) (auto simp add: SendHttpRequest_def web_body_def CharArrayToString_def)

lemma status_response: \<open>SendHttpRequest (pe_signal status_poll) = ''{"status":"no_signal"}''\<close>
  by (simp add: status_poll_def SendHttpRequest_web_body)

text \<open>
  C8 as stated fails on the later version: a response that is neither empty nor equal
  to the sentinel, but contains it, is skipped there, while the older version decodes
  it.
\<close>

theorem CheckForSignals_v2_skips_other_body:
  \<open>SendHttpRequest (pe_signal status_poll) = ''{"status":"no_signal"}'' \<and>
   SendHttpRequest (pe_signal status_poll) \<noteq> '''' \<and>
   SendHttpRequest (pe_signal status_poll) \<noteq> ''no_signal'' \<and>
   CheckForSignals_v2 StringToDouble_ex trading_config status_poll = Some NoSignal \<and>
   CheckForSignals_v1 StringToDouble_ex trading_config status_poll \<noteq> NoSignal\<close>
proof -
  have "CheckForSignals_v2 StringToDouble_ex trading_config status_poll = Some NoSignal"
    by (simp add: CheckForSignals_v2_def status_response StringFind_def)
  moreover have "CheckForSignals_v1 StringToDouble_ex trading_config status_poll \<noteq> NoSignal"
    by (simp add: CheckForSignals_v1_skip status_response)
  ultimately show ?thesis
    by (simp add: status_response)
qed

lemma buy_response:
  \<open>SendHttpRequest (pe_signal buy_poll) =
     ''{"direction":"BUY","entry_price":1.1025,"sl":1.09,"tp":1.12,"confidence":0.9}''\<close>
  by (simp add: buy_poll_def SendHttpRequest_web_body)

lemma quiet_response: "SendHttpRequest (pe_signal quiet_poll) = ''no_signal''"
  by (simp add: quiet_poll_def SendHttpRequest_web_body)

lemma buy_not_sentinel:
  "\<not> sublist ''no_signal'' (SendHttpRequest (pe_signal buy_poll))"
  unfolding buy_response
  by (simp add: StringFind_def flip: StringFind_sublist)

theorem CheckForSignals_skip_condition_witness:
  "SendHttpRequest (pe_signal buy_poll) \<noteq> '''' \<and>
   SendHttpRequest (pe_signal buy_poll) \<noteq> ''no_signal'' \<and>
   \<not> sublist ''no_signal'' (SendHttpRequest (pe_signal buy_poll)) \<and>
   CheckForSignals_v1 StringToDouble_ex trading_config buy_poll \<noteq> NoSignal \<and>
   (\<exists>out. CheckForSignals_v2 StringToDouble_ex trading_config buy_poll = Some out \<and>
      out \<noteq> NoSignal) \<and>
   SendHttpRequest (pe_signal quiet_poll) = ''no_signal'' \<and>
   CheckForSignals_v1 StringToDouble_ex trading_config quiet_poll = NoSignal \<and>
   CheckForSignals_v2 StringToDouble_ex trading_config quiet_poll = Some NoSignal"
proof -
  have present: "SendHttpRequest (pe_signal buy_poll) \<noteq> ''''"
    "SendHttpRequest (pe_signal buy_poll) \<noteq> ''no_signal''"
    by (simp_all add: buy_response)
  have quiet: "sublist ''no_signal'' (SendHttpRequest (pe_signal quiet_poll))"
    by (simp add: quiet_response)
  show ?thesis
    using present buy_not_sentinel quiet quiet_response
      CheckForSignals_skip_condition [of StringToDouble_ex trading_config buy_poll]
      CheckForSignals_skip_condition [of StringToDouble_ex trading_config quiet_poll]
    by auto
qed

text \<open>The fields the older version decodes from the buy signal.\<close>

lemma buy_fields:
  "ExtractValue_v1 (SendHttpRequest (pe_signal buy_poll)) ''direction'' = ''BUY''"
  "ExtractValue_v1 (SendHttpRequest (pe_signal buy_poll)) ''entry_price'' = ''1.1025''"
  "ExtractValue_v1 (SendHttpRequest (pe_signal buy_poll)) ''sl'' = ''1.09''"
  "ExtractValue_v1 (SendHttpRequest (pe_signal buy_poll)) ''tp'' = ''1.12''"
  "ExtractValue_v1 (SendHttpRequest (pe_signal buy_poll)) ''confidence'' = ''0.9''"
  unfolding buy_response by code_simp+

lemma buy_decoded:
  "DecodeSignal_v1 StringToDouble_ex (SendHttpRequest (pe_signal buy_poll)) =
     \<lparr>sig_direction = ''BUY'', sig_entryPrice = double_of_real 1.1025,
      sig_sl = double_of_real 1.09, sig_tp = double_of_real 1.12,
      sig_confidence = double_of_real 0.9\<rparr>"
  by (simp add: DecodeSignal_v1_def buy_fields StringToDouble_ex_def)

subsection \<open>Order execution\<close>

lemma ExecuteSignal_request:
  "submitted_request (ExecuteSignal cfg m OrderSend tradelog direction entryPrice sl tp) =
     Some \<lparr>req_symbol = Symbol cfg,
           req_cmd = (if direction = ''BUY'' then OP_BUY else OP_SELL),
           req_volume = LotSize cfg,
           req_price = (if direction = ''BUY'' then MODE_ASK m else MODE_BID m),
           req_slippage = Slippage cfg, req_stoploss = sl, req_takeprofit = tp,
           req_comment = ''AI Scalping Signal'', req_magic = MagicNumber cfg,
           req_expiration = 0\<rparr>"
  by (simp add: ExecuteSignal_def Let_def)

lemma ExecuteSignal_ignores_entryPrice:
  "ExecuteSignal cfg m OrderSend tradelog direction entryPrice sl tp =
   ExecuteSignal cfg m OrderSend tradelog direction entryPrice' sl tp"
  by (simp add: ExecuteSignal_def LogTradeToBackend_def)

text \<open>
  C9. Whatever order function the host has, \<^verbatim>\<open>ExecuteSignal\<close> asks it about one request:
  the one whose price is the ask read by this call when the direction is \<^verbatim>\<open>BUY\<close> and
  the bid read by this call otherwise (so for \<^verbatim>\<open>SELL\<close>). The ticket of the outcome is
  the host's answer to that request, and the call succeeds or fails with that answer.
  The entry price of the signal is no part of the request or of the outcome. The older
  version does the same when \<open>Point\<close> is not 0, and stops before it asks the host when
  \<open>Point\<close> is 0.
\<close>

theorem ExecuteSignal_price_is_live_quote:
  "ExecuteSignal cfg m OrderSend tradelog direction entryPrice sl tp =
     (let request =
        \<lparr>req_symbol = Symbol cfg,
         req_cmd = (if direction = ''BUY'' then OP_BUY else OP_SELL),
         req_volume = LotSize cfg,
         req_price = (if direction = ''BUY'' then MODE_ASK m else MODE_BID m),
         req_slippage = Slippage cfg, req_stoploss = sl, req_takeprofit = tp,
         req_comment = ''AI Scalping Signal'', req_magic = MagicNumber cfg,
         req_expiration = 0\<rparr>
      in if 0 < OrderSend request
         then OrderPlaced request (OrderSend request) (SendHttpRequest tradelog \<noteq> '''')
         else OrderFailed request) \<and>
   ExecuteSignal_v1 cfg m OrderSend tradelog direction entryPrice sl tp =
     (if Point m = 0 then ZeroDivide
      else ExecuteSignal cfg m OrderSend tradelog direction entryPrice sl tp)"
  by (simp add: ExecuteSignal_def ExecuteSignal_v1_def LogTradeToBackend_def Let_def)

lemma calm_market_point: "Point calm_market \<noteq> 0"
  by (simp add: calm_market_def double_eval)

text \<open>
  A host that opens a ticket only for a buy order priced at the ask of 1.1 opens it for
  a buy signal with entry price 1.1025, in both versions; the same host refuses the
  order of a sell signal, which is priced at the bid of 1.0998. With \<open>Point\<close> at 0 the
  older version stops.
\<close>

theorem ExecuteSignal_price_is_live_quote_witness:
  "MODE_ASK calm_market = double_of_real 1.1 \<and>
   ExecuteSignal trading_config calm_market OrderSend_buy_at_ask web_ok ''BUY''
       (double_of_real 1.1025) (double_of_real 1.09) (double_of_real 1.12) =
     OrderPlaced
       \<lparr>req_symbol = ''EURUSD'', req_cmd = OP_BUY, req_volume = double_of_real 0.01,
        req_price = double_of_real 1.1, req_slippage = 30,
        req_stoploss = double_of_real 1.09, req_takeprofit = double_of_real 1.12,
        req_comment = ''AI Scalping Signal'', req_magic = 123456, req_expiration = 0\<rparr>
       77 True \<and>
   ExecuteSignal_v1 trading_config calm_market OrderSend_buy_at_ask web_ok ''BUY''
       (double_of_real 1.1025) (double_of_real 1.09) (double_of_real 1.12) =
     ExecuteSignal trading_config calm_market OrderSend_buy_at_ask web_ok ''BUY''
       (double_of_real 1.1025) (double_of_real 1.09) (double_of_real 1.12) \<and>
   ExecuteSignal trading_config calm_market OrderSend_buy_at_ask web_ok ''SELL''
       (double_of_real 1.0975) (double_of_real 1.11) (double_of_real 1.08) =
     OrderFailed
       \<lparr>req_symbol = ''EURUSD'', req_cmd = OP_SELL, req_volume = double_of_real 0.01,
        req_price = double_of_real 1.0998, req_slippage = 30,
        req_stoploss = double_of_real 1.11, req_takeprofit = double_of_real 1.08,
        req_comment = ''AI Scalping Signal'', req_magic = 123456, req_expiration = 0\<rparr> \<and>
   ExecuteSignal_v1 trading_config (calm_market\<lparr>Point := 0\<rparr>) OrderSend_buy_at_ask web_ok
       ''BUY'' (double_of_real 1.1025) (double_of_real 1.09) (double_of_real 1.12) =
     ZeroDivide"
proof -
  have config: "Symbol trading_config = ''EURUSD''"
    "LotSize trading_config = double_of_real 0.01" "Slippage trading_config = 30"
    "MagicNumber trading_config = 123456"
    by (simp_all add: trading_config_def default_config_def)
  have quotes: "MODE_ASK calm_market = double_of_real 1.1"
    "MODE_BID calm_market = double_of_real 1.0998"
    by (simp_all add: calm_market_def)
  show ?thesis
    using calm_market_point
      ExecuteSignal_price_is_live_quote
        [of trading_config calm_market OrderSend_buy_at_ask web_ok "''BUY''"
           "double_of_real 1.1025" "double_of_real 1.09" "double_of_real 1.12"]
      ExecuteSignal_price_is_live_quote
        [of trading_config calm_market OrderSend_buy_at_ask web_ok "''SELL''"
           "double_of_real 1.0975" "double_of_real 1.11" "double_of_real 1.08"]
      ExecuteSignal_price_is_live_quote
        [of trading_config "calm_market\<lparr>Point := 0\<rparr>" OrderSend_buy_at_ask web_ok "''BUY''"
           "double_of_real 1.1025" "double_of_real 1.09" "double_of_real 1.12"]
    by (simp add: config quotes OrderSend_buy_at_ask_def SendHttpRequest_web_ok Let_def)
qed

subsection \<open>The tick handler\<close>

lemma OnTick_flush_called:
  "snd (OnTick_flush cfg te s) \<noteq> None \<longleftrightarrow>
   tickBufferSize \<le> tickCount s \<or> 30000 < uint (te_clock_flush te) - lastTickSend s"
  by (simp add: OnTick_flush_def split: prod.split)

lemma lastTickSend_CollectTickData [simp]:
  "lastTickSend (CollectTickData tickJson s) = lastTickSend s"
  by (simp add: CollectTickData_def)

lemma lastSignalPoll_CollectTickData [simp]:
  "lastSignalPoll (CollectTickData tickJson s) = lastSignalPoll s"
  by (simp add: CollectTickData_def)

lemma isConnected_CollectTickData [simp]:
  "isConnected (CollectTickData tickJson s) = isConnected s"
  by (simp add: CollectTickData_def)

lemma ExecuteSignal_not_ZeroDivide:
  "ExecuteSignal cfg m OrderSend tradelog direction entryPrice sl tp \<noteq> ZeroDivide"
  by (simp add: ExecuteSignal_def Let_def)

lemma stopped_iff: "stopped po \<longleftrightarrow> (\<exists>sg. po = Executed sg ZeroDivide)"
  by (cases po rule: stopped.cases) simp_all

lemma CheckForSignals_v1_stopped:
  "stopped (CheckForSignals_v1 StringToDouble cfg pe) \<longleftrightarrow>
   SendHttpRequest (pe_signal pe) \<noteq> '''' \<and>
   SendHttpRequest (pe_signal pe) \<noteq> ''no_signal'' \<and>
   ValidateSignal cfg (pe_market pe) (pe_trades pe)
     (sig_direction (DecodeSignal_v1 StringToDouble (SendHttpRequest (pe_signal pe))))
     (sig_entryPrice (DecodeSignal_v1 StringToDouble (SendHttpRequest (pe_signal pe))))
     (sig_sl (DecodeSignal_v1 StringToDouble (SendHttpRequest (pe_signal pe))))
     (sig_tp (DecodeSignal_v1 StringToDouble (SendHttpRequest (pe_signal pe)))) = Accepted \<and>
   Point (pe_exec_market pe) = 0"
  by (simp add: stopped_iff CheckForSignals_v1_def Let_def ExecuteSignal_v1_def
      ExecuteSignal_not_ZeroDivide split: verdict.split)

lemma OnTick_v1_flushed:
  "flushed (snd (OnTick_v1 StringToDouble cfg te s)) \<noteq> None \<longleftrightarrow>
   isConnected s \<and> EnableTrading cfg \<and>
   \<not> (signalPollInterval < uint (te_clock_poll te) - lastSignalPoll s \<and>
      stopped (CheckForSignals_v1 StringToDouble cfg (te_poll te))) \<and>
   (tickBufferSize \<le> tickCount (CollectTickData (te_tickJson te) s) \<or>
    30000 < uint (te_clock_flush te) - lastTickSend s)"
proof (cases "isConnected s \<and> EnableTrading cfg")
  case False
  then show ?thesis
    by (auto simp add: OnTick_v1_def)
next
  case True
  let ?s1 = "CollectTickData (te_tickJson te) s"
  show ?thesis
  proof (cases "signalPollInterval < uint (te_clock_poll te) - lastSignalPoll s")
    case False
    then have "flushed (snd (OnTick_v1 StringToDouble cfg te s)) =
        snd (OnTick_flush cfg te ?s1)"
      using True by (simp add: OnTick_v1_def Let_def split: prod.split)
    then show ?thesis
      using True False OnTick_flush_called [of cfg te "?s1"] by simp
  next
    case poll: True
    let ?s2 = "?s1\<lparr>lastSignalPoll := uint (te_clock_polled te)\<rparr>"
    show ?thesis
    proof (cases "stopped (CheckForSignals_v1 StringToDouble cfg (te_poll te))")
      case stop: True
      then obtain sg where
        "CheckForSignals_v1 StringToDouble cfg (te_poll te) = Executed sg ZeroDivide"
        using stopped_iff by blast
      then have "flushed (snd (OnTick_v1 StringToDouble cfg te s)) = None"
        using True poll by (simp add: OnTick_v1_def Let_def)
      then show ?thesis
        using poll stop by simp
    next
      case False
      then have "\<And>sg. CheckForSignals_v1 StringToDouble cfg (te_poll te) \<noteq> Executed sg ZeroDivide"
        using stopped_iff by blast
      then have "flushed (snd (OnTick_v1 StringToDouble cfg te s)) =
          snd (OnTick_flush cfg te ?s2)"
        using True poll
        by (simp add: OnTick_v1_def Let_def
            split: prod.split poll_outcome.split exec_outcome.split)
      then show ?thesis
        using True False OnTick_flush_called [of cfg te "?s2"] by simp
    qed
  qed
qed

lemma OnTick_v2_flushed:
  "\<exists>s' out. OnTick_v2 StringToDouble cfg te s = Some (s', out) \<and>
     (flushed out \<noteq> None \<longleftrightarrow>
        isConnected s \<and>
        (tickBufferSize \<le> tickCount (CollectTickData (te_tickJson te) s) \<or>
         30000 < uint (te_clock_flush te) - lastTickSend s))"
proof (cases "isConnected s")
  case False
  then show ?thesis
    by (simp add: OnTick_v2_def)
next
  case True
  let ?s1 = "CollectTickData (te_tickJson te) s"
  show ?thesis
  proof (cases "EnableTrading cfg \<and>
      signalPollInterval < uint (te_clock_poll te) - lastSignalPoll ?s1")
    case False
    then have "OnTick_v2 StringToDouble cfg te s =
        Some (fst (OnTick_flush cfg te ?s1),
              \<lparr>polled = None, flushed = snd (OnTick_flush cfg te ?s1)\<rparr>)"
      using True by (auto simp add: OnTick_v2_def Let_def split: prod.split)
    then show ?thesis
      using True OnTick_flush_called [of cfg te "?s1"] by simp
  next
    case poll: True
    let ?s2 = "?s1\<lparr>lastSignalPoll := uint (te_clock_polled te)\<rparr>"
    obtain po where "CheckForSignals_v2 StringToDouble cfg (te_poll te) = Some po"
      using CheckForSignals_v2_returns by blast
    then have "OnTick_v2 StringToDouble cfg te s =
        Some (fst (OnTick_flush cfg te ?s2),
              \<lparr>polled = Some po, flushed = snd (OnTick_flush cfg te ?s2)\<rparr>)"
      using True poll by (simp add: OnTick_v2_def Let_def split: prod.split)
    then show ?thesis
      using True OnTick_flush_called [of cfg te "?s2"] by simp
  qed
qed

text \<open>
  C3, as the code has it. The later \<^verbatim>\<open>OnTick\<close> always returns, and it calls
  \<^verbatim>\<open>SendTickData\<close> exactly when the session is connected and, after the tick has been
  collected, the buffered count has reached the capacity or the clock reading exceeds
  the time stamp of the last successful upload by more than 30000 ms. The older
  \<^verbatim>\<open>OnTick\<close> does so under the same condition when, in addition, trading is enabled
  and the handler gets as far as the test: it does not when the poll of this tick was
  due and stopped the program. The poll stops the program exactly when its response is
  neither empty nor \<^verbatim>\<open>no_signal\<close>, the decoded signal passes validation and \<open>Point\<close> is 0
  when the older \<^verbatim>\<open>ExecuteSignal\<close> divides by it. While the count is within the capacity
  before the tick, reaching the capacity means being equal to 500.
\<close>

theorem OnTick_flush_trigger:
  "(\<exists>s' out. OnTick_v2 StringToDouble cfg te s = Some (s', out) \<and>
      (flushed out \<noteq> None \<longleftrightarrow>
         isConnected s \<and>
         (tickBufferSize \<le> tickCount (CollectTickData (te_tickJson te) s) \<or>
          30000 < uint (te_clock_flush te) - lastTickSend s))) \<and>
   (flushed (snd (OnTick_v1 StringToDouble cfg te s)) \<noteq> None \<longleftrightarrow>
      isConnected s \<and> EnableTrading cfg \<and>
      \<not> (signalPollInterval < uint (te_clock_poll te) - lastSignalPoll s \<and>
         stopped (CheckForSignals_v1 StringToDouble cfg (te_poll te))) \<and>
      (tickBufferSize \<le> tickCount (CollectTickData (te_tickJson te) s) \<or>
       30000 < uint (te_clock_flush te) - lastTickSend s)) \<and>
   (stopped (CheckForSignals_v1 StringToDouble cfg (te_poll te)) \<longleftrightarrow>
      SendHttpRequest (pe_signal (te_poll te)) \<noteq> '''' \<and>
      SendHttpRequest (pe_signal (te_poll te)) \<noteq> ''no_signal'' \<and>
      ValidateSignal cfg (pe_market (te_poll te)) (pe_trades (te_poll te))
        (sig_direction
           (DecodeSignal_v1 StringToDouble (SendHttpRequest (pe_signal (te_poll te)))))
        (sig_entryPrice
           (DecodeSignal_v1 StringToDouble (SendHttpRequest (pe_signal (te_poll te)))))
        (sig_sl (DecodeSignal_v1 StringToDouble (SendHttpRequest (pe_signal (te_poll te)))))
        (sig_tp (DecodeSignal_v1 StringToDouble (SendHttpRequest (pe_signal (te_poll te))))) =
        Accepted \<and>
      Point (pe_exec_market (te_poll te)) = 0) \<and>
   (tickCount s \<le> tickBufferSize \<longrightarrow>
      (tickBufferSize \<le> tickCount (CollectTickData (te_tickJson te) s) \<longleftrightarrow>
       tickCount (CollectTickData (te_tickJson te) s) = 500))"
proof -
  have "tickCount s \<le> tickBufferSize \<longrightarrow>
      (tickBufferSize \<le> tickCount (CollectTickData (te_tickJson te) s) \<longleftrightarrow>
       tickCount (CollectTickData (te_tickJson te) s) = 500)"
    by (auto simp add: tickCount_CollectTickData tickBufferSize_def)
  then show ?thesis
    using OnTick_v2_flushed [of StringToDouble cfg te s]
      OnTick_v1_flushed [of StringToDouble cfg te s]
      CheckForSignals_v1_stopped [of StringToDouble cfg "te_poll te"]
    by blast
qed

lemma tick_at_30000_elapsed:
  "uint (te_clock_flush tick_at_30000) - lastTickSend empty_state = 30000"
  by (simp add: tick_at_30000_def empty_state_def)

text \<open>
  C3 as stated fails: on a connected session with one tick buffered and a clock reading
  exactly 30000 ms after the last successful upload, neither version calls
  \<^verbatim>\<open>SendTickData\<close>.
\<close>

theorem OnTick_no_flush_at_30000:
  "isConnected empty_state \<and>
   uint (te_clock_flush tick_at_30000) - lastTickSend empty_state = 30000 \<and>
   tickCount (CollectTickData ''{}'' empty_state) = 1 \<and>
   OnTick_v2 StringToDouble_ex default_config tick_at_30000 empty_state =
     Some (CollectTickData ''{}'' empty_state, \<lparr>polled = None, flushed = None\<rparr>) \<and>
   OnTick_v1 StringToDouble_ex trading_config tick_at_30000 empty_state =
     (CollectTickData ''{}'' empty_state, \<lparr>polled = None, flushed = None\<rparr>)"
proof -
  have count: "tickCount (CollectTickData ''{}'' empty_state) = 1"
    by (simp add: tickCount_CollectTickData empty_state_def tickBufferSize_def)
  have poll: "lastSignalPoll empty_state = 1000"
    by (simp add: empty_state_def)
  have flush: "OnTick_flush cfg tick_at_30000 (CollectTickData ''{}'' empty_state) =
      (CollectTickData ''{}'' empty_state, None)" for cfg
    using tick_at_30000_elapsed by (simp add: OnTick_flush_def count tickBufferSize_def)
  have connected: "isConnected empty_state"
    by (simp add: empty_state_def)
  have te: "te_tickJson tick_at_30000 = ''{}''" "uint (te_clock_poll tick_at_30000) = 1400"
    by (simp_all add: tick_at_30000_def)
  have cfg: "\<not> EnableTrading default_config" "EnableTrading trading_config"
    by (simp_all add: trading_config_def default_config_def)
  have v2: "OnTick_v2 StringToDouble_ex default_config tick_at_30000 empty_state =
      Some (CollectTickData ''{}'' empty_state, \<lparr>polled = None, flushed = None\<rparr>)"
    by (simp add: OnTick_v2_def Let_def connected cfg te flush)
  have v1: "OnTick_v1 StringToDouble_ex trading_config tick_at_30000 empty_state =
      (CollectTickData ''{}'' empty_state, \<lparr>polled = None, flushed = None\<rparr>)"
    by (simp add: OnTick_v1_def Let_def connected cfg te poll flush signalPollInterval_def)
  show ?thesis
    using connected tick_at_30000_elapsed count v1 v2 by simp
qed



text \<open>
  One millisecond later both versions upload. When, on the same tick, a poll is due and
  answered by a buy signal that passes validation while \<open>Point\<close> is 0, the older version
  stops in the poll and does not upload; the later version does.
\<close>

lemma pointless_poll_stops:
  "stopped (CheckForSignals_v1 StringToDouble_ex trading_config pointless_poll)"
proof -
  have same: "pe_signal pointless_poll = pe_signal buy_poll"
    "pe_market pointless_poll = calm_market" "pe_trades pointless_poll = []"
    "Point (pe_exec_market pointless_poll) = 0"
    by (simp_all add: pointless_poll_def buy_poll_def quiet_poll_def)
  have "ValidateSignal trading_config calm_market [] ''BUY''
          (double_of_real 1.1025) (double_of_real 1.09) (double_of_real 1.12) = Accepted"
    by (simp add: ValidateSignal_def trading_config_def default_config_def calm_market_def
        count_no_open double_eval)
  moreover have "SendHttpRequest (pe_signal buy_poll) \<noteq> []"
    "SendHttpRequest (pe_signal buy_poll) \<noteq> ''no_signal''"
    by (simp_all add: buy_response)
  ultimately show ?thesis
    by (simp add: CheckForSignals_v1_stopped same buy_decoded)
qed

theorem OnTick_flush_trigger_witness:
  "tickCount empty_state \<le> tickBufferSize \<and>
   isConnected empty_state \<and> EnableTrading trading_config \<and>
   30000 < uint (te_clock_flush tick_at_30001) - lastTickSend empty_state \<and>
   \<not> signalPollInterval < uint (te_clock_poll tick_at_30001) - lastSignalPoll empty_state \<and>
   flushed (snd (OnTick_v1 StringToDouble_ex trading_config tick_at_30001 empty_state)) \<noteq> None \<and>
   (\<exists>s' out. OnTick_v2 StringToDouble_ex trading_config tick_at_30001 empty_state =
      Some (s', out) \<and> flushed out \<noteq> None) \<and>
   tickCount (CollectTickData (te_tickJson tick_at_30001) empty_state) \<noteq> 500 \<and>
   30000 < uint (te_clock_flush tick_pointless) - lastTickSend empty_state \<and>
   signalPollInterval < uint (te_clock_poll tick_pointless) - lastSignalPoll empty_state \<and>
   stopped (CheckForSignals_v1 StringToDouble_ex trading_config (te_poll tick_pointless)) \<and>
   flushed (snd (OnTick_v1 StringToDouble_ex trading_config tick_pointless empty_state)) = None \<and>
   (\<exists>s' out. OnTick_v2 StringToDouble_ex trading_config tick_pointless empty_state =
      Some (s', out) \<and> flushed out \<noteq> None)"
proof -
  have bound: "tickCount empty_state \<le> tickBufferSize"
    by (simp add: empty_state_def)
  have connected: "isConnected empty_state" "EnableTrading trading_config"
    by (simp_all add: empty_state_def trading_config_def default_config_def)
  have elapsed: "30000 < uint (te_clock_flush tick_at_30001) - lastTickSend empty_state"
    "30000 < uint (te_clock_flush tick_pointless) - lastTickSend empty_state"
    by (simp_all add: tick_pointless_def tick_at_30001_def tick_at_30000_def empty_state_def)
  have poll: "\<not> signalPollInterval <
      uint (te_clock_poll tick_at_30001) - lastSignalPoll empty_state"
    "signalPollInterval < uint (te_clock_poll tick_pointless) - lastSignalPoll empty_state"
    by (simp_all add: tick_pointless_def tick_at_30001_def tick_at_30000_def empty_state_def
        signalPollInterval_def)
  have count: "tickCount (CollectTickData (te_tickJson tick_at_30001) empty_state) \<noteq> 500"
    by (simp add: tickCount_CollectTickData empty_state_def tickBufferSize_def)
  have stops: "stopped (CheckForSignals_v1 StringToDouble_ex trading_config
      (te_poll tick_pointless))"
    using pointless_poll_stops
    by (simp add: tick_pointless_def tick_at_30001_def tick_at_30000_def)
  show ?thesis
    using bound connected elapsed poll count stops
      OnTick_flush_trigger [of StringToDouble_ex trading_config tick_at_30001 empty_state]
      OnTick_flush_trigger [of StringToDouble_ex trading_config tick_pointless empty_state]
    by blast
qed

text \<open>The tick handlers keep the buffer within its capacity as well.\<close>

lemma OnTick_flush_bounded:
  "tickCount s \<le> tickBufferSize \<Longrightarrow> tickCount (fst (OnTick_flush cfg te s)) \<le> tickBufferSize"
  using tickCount_SendTickData_le [of cfg "te_upload te" "te_clock_sent te" s]
  by (auto simp add: OnTick_flush_def split_beta)

lemma OnTick_v1_bounded:
  assumes "tickCount s \<le> tickBufferSize"
  shows "tickCount (fst (OnTick_v1 StringToDouble cfg te s)) \<le> tickBufferSize"
proof -
  let ?s1 = "CollectTickData (te_tickJson te) s"
  let ?s2 = "?s1\<lparr>lastSignalPoll := uint (te_clock_polled te)\<rparr>"
  have s1: "tickCount ?s1 \<le> tickBufferSize"
    using assms by (simp add: tickCount_CollectTickData)
  then have s2: "tickCount ?s2 \<le> tickBufferSize"
    by simp
  show ?thesis
    using assms s1 OnTick_flush_bounded [OF s1, of cfg te] OnTick_flush_bounded [OF s2, of cfg te]
    by (auto simp add: OnTick_v1_def Let_def split_beta
        split: poll_outcome.split exec_outcome.split)
qed

lemma OnTick_v2_bounded:
  assumes "tickCount s \<le> tickBufferSize"
    and "OnTick_v2 StringToDouble cfg te s = Some (s', out)"
  shows "tickCount s' \<le> tickBufferSize"
proof -
  let ?s1 = "CollectTickData (te_tickJson te) s"
  let ?s2 = "?s1\<lparr>lastSignalPoll := uint (te_clock_polled te)\<rparr>"
  have s1: "tickCount ?s1 \<le> tickBufferSize"
    using assms(1) by (simp add: tickCount_CollectTickData)
  then have s2: "tickCount ?s2 \<le> tickBufferSize"
    by simp
  show ?thesis
    using assms s1 OnTick_flush_bounded [OF s1, of cfg te] OnTick_flush_bounded [OF s2, of cfg te]
    by (auto simp add: OnTick_v2_def Let_def split_beta split: if_splits Option.bind_splits)
qed

subsection \<open>The close-report watermark\<close>

lemma Max_insert_max:
  "finite S \<Longrightarrow> Max (insert (max a b) S) = Max (insert (a::int) (insert b S))"
  by (cases "S = {}") (simp_all add: max.assoc)

lemma Max_insert_Max:
  "finite X \<Longrightarrow> finite Y \<Longrightarrow> Max (insert (Max (insert (w::int) X)) Y) = Max (insert w (X \<union> Y))"
proof (cases "Y = {}")
  case True
  then show ?thesis by simp
next
  case False
  assume fin: "finite X" "finite Y"
  have "Max (insert w (X \<union> Y)) = Max (insert w X \<union> Y)"
    by simp
  also have "\<dots> = max (Max (insert w X)) (Max Y)"
    using fin False by (intro Max_Un) auto
  finally show ?thesis
    using fin False by simp
qed

lemma Max_insert_below:
  "finite S \<Longrightarrow> (w::int) \<le> t \<Longrightarrow> Max (insert w (insert t S)) = Max (insert t S)"
  by (cases "S = {}") (simp_all add: max.absorb2 max.coboundedI1)

lemma set_matching_tickets:
  "set (matching_tickets cfg os) = OrderTicket ` {ord. Some ord \<in> set os \<and> own_order cfg (Some ord)}"
  by (induction cfg os rule: matching_tickets.induct) (auto simp add: own_order_def)

lemma set_matching_tickets_rev:
  "set (matching_tickets cfg (rev os)) = set (matching_tickets cfg os)"
  by (simp add: set_matching_tickets)

lemma OnInit_scan_Max:
  "OnInit_scan cfg os w = Max (insert w (set (matching_tickets cfg os)))"
proof (induction cfg os w rule: OnInit_scan.induct)
  case (1 cfg lastLogged)
  show ?case by simp
next
  case (2 cfg os lastLogged)
  then show ?case by simp
next
  case (3 cfg ord os lastLogged)
  then show ?case
    by (simp add: Max_insert_max)
qed

lemma lastLoggedTicket_OnInit:
  "lastLoggedTicket (OnInit cfg health history s) =
     Max (insert (lastLoggedTicket s) (set (matching_tickets cfg history)))"
  by (simp add: OnInit_def OnInit_scan_Max set_matching_tickets_rev)

lemma OnTrade_scan_above:
  "OnTrade_scan cfg w os = Some ord \<Longrightarrow> w < OrderTicket ord"
  by (induction cfg w os rule: OnTrade_scan.induct) (auto split: if_splits)

lemma OnTrade_cases:
  "(OnTrade cfg history report s = (s, NoNewClose)) \<or>
   (\<exists>ord. lastLoggedTicket s < OrderTicket ord \<and>
      OnTrade cfg history report s =
        (s\<lparr>lastLoggedTicket := OrderTicket ord\<rparr>,
         CloseReported ord (SendHttpRequest report \<noteq> '''')))"
  by (auto simp add: OnTrade_def dest: OnTrade_scan_above split: option.split)

lemma run_session_watermark:
  "stays_loaded es \<Longrightarrow>
   lastLoggedTicket (fst (run_session cfg es s)) =
     Max (insert (lastLoggedTicket s)
       (set (reported_tickets (snd (run_session cfg es s))) \<union> set (adopted_tickets cfg es)))"
proof (induction es arbitrary: s)
  case Nil
  show ?case by simp
next
  case (Cons e es)
  show ?case
  proof (cases e)
    case (Restarted health history)
    with Cons.prems show ?thesis
      by simp
  next
    case (SessionStart health history)
    let ?s1 = "OnInit cfg health history s"
    have loaded: "stays_loaded es"
      using Cons.prems SessionStart by simp
    have "lastLoggedTicket (fst (run_session cfg (e # es) s)) =
        Max (insert (Max (insert (lastLoggedTicket s) (set (matching_tickets cfg history))))
          (set (reported_tickets (snd (run_session cfg es ?s1))) \<union> set (adopted_tickets cfg es)))"
      using SessionStart Cons.IH [OF loaded, of ?s1] by (simp add: lastLoggedTicket_OnInit)
    also have "\<dots> = Max (insert (lastLoggedTicket s)
        (set (matching_tickets cfg history) \<union>
         (set (reported_tickets (snd (run_session cfg es ?s1))) \<union> set (adopted_tickets cfg es))))"
      by (rule Max_insert_Max) simp_all
    finally show ?thesis
      using SessionStart by (simp add: Un_ac)
  next
    case (TradeChanged history report)
    have loaded: "stays_loaded es"
      using Cons.prems TradeChanged by simp
    consider (none) "OnTrade cfg history report s = (s, NoNewClose)"
      | (close) ord where "lastLoggedTicket s < OrderTicket ord"
          "OnTrade cfg history report s =
             (s\<lparr>lastLoggedTicket := OrderTicket ord\<rparr>,
              CloseReported ord (SendHttpRequest report \<noteq> ''''))"
      using OnTrade_cases [of cfg history report s] by blast
    then show ?thesis
    proof cases
      case none
      then show ?thesis
        using TradeChanged Cons.IH [OF loaded, of s] by (simp add: split_beta)
    next
      case close
      let ?s1 = "s\<lparr>lastLoggedTicket := OrderTicket ord\<rparr>"
      let ?rest = "set (reported_tickets (snd (run_session cfg es ?s1))) \<union>
        set (adopted_tickets cfg es)"
      have "lastLoggedTicket (fst (run_session cfg (e # es) s)) =
          Max (insert (OrderTicket ord) ?rest)"
        using TradeChanged close Cons.IH [OF loaded, of ?s1] by (simp add: split_beta)
      also have "\<dots> = Max (insert (lastLoggedTicket s) (insert (OrderTicket ord) ?rest))"
        using close(1) by (subst Max_insert_below) simp_all
      finally show ?thesis
        using TradeChanged close by (simp add: split_beta)
    qed
  qed
qed

lemma run_session_append:
  "fst (run_session cfg (es @ es') s) = fst (run_session cfg es' (fst (run_session cfg es s)))"
proof (induction es arbitrary: s)
  case Nil
  show ?case by simp
next
  case (Cons e es)
  then show ?case
    by (cases e) (simp_all add: split_beta)
qed

lemma run_session_monotone:
  "stays_loaded es \<Longrightarrow> lastLoggedTicket s \<le> lastLoggedTicket (fst (run_session cfg es s))"
  by (simp add: run_session_watermark)

lemma run_session_restarted:
  "fst (run_session cfg (es @ Restarted health history # es') s) =
   fst (run_session cfg (Restarted health history # es') initial_state)"
  by (simp add: run_session_append)

lemma watermark_after_restart:
  assumes "stays_loaded es'"
  shows "lastLoggedTicket (fst (run_session cfg (Restarted health history # es') s)) =
     Max (insert 0
       (set (reported_tickets (snd (run_session cfg (Restarted health history # es') s))) \<union>
        set (adopted_tickets cfg (Restarted health history # es'))))"
proof -
  have "stays_loaded (SessionStart health history # es')"
    using assms by simp
  from run_session_watermark [OF this, of cfg initial_state]
  show ?thesis
    by (simp add: initial_state_def)
qed

text \<open>
  C1, as the code has it. While the program stays loaded, over every sequence of calls
  of \<^verbatim>\<open>OnInit\<close> and trade-change notifications the watermark never decreases, at the end
  of the sequence or of any longer one, and it equals the maximum of three things: its
  value before the sequence, the tickets posted as closed (answered or not), and the
  tickets of this symbol and magic number that \<^verbatim>\<open>OnInit\<close> found in the order history and
  adopted without a report. When the program is loaded again the global starts from 0:
  what happened before plays no part, and from then on the watermark is the maximum of
  0, the tickets posted since, and the tickets found in the history at the restart or
  later.
\<close>

theorem watermark_monotone_and_maximal:
  "(stays_loaded es \<longrightarrow>
      lastLoggedTicket s \<le> lastLoggedTicket (fst (run_session cfg es s)) \<and>
      lastLoggedTicket (fst (run_session cfg es s)) =
        Max (insert (lastLoggedTicket s)
          (set (reported_tickets (snd (run_session cfg es s))) \<union>
           set (adopted_tickets cfg es)))) \<and>
   (stays_loaded es' \<longrightarrow>
      lastLoggedTicket (fst (run_session cfg es s)) \<le>
        lastLoggedTicket (fst (run_session cfg (es @ es') s))) \<and>
   fst (run_session cfg (es @ Restarted health history # es') s) =
     fst (run_session cfg (Restarted health history # es') initial_state) \<and>
   (stays_loaded es' \<longrightarrow>
      lastLoggedTicket (fst (run_session cfg (es @ Restarted health history # es') s)) =
        Max (insert 0
          (set (reported_tickets
                 (snd (run_session cfg (Restarted health history # es') initial_state))) \<union>
           set (adopted_tickets cfg (Restarted health history # es')))))"
proof -
  have loaded: "stays_loaded es \<longrightarrow>
      lastLoggedTicket s \<le> lastLoggedTicket (fst (run_session cfg es s)) \<and>
      lastLoggedTicket (fst (run_session cfg es s)) =
        Max (insert (lastLoggedTicket s)
          (set (reported_tickets (snd (run_session cfg es s))) \<union>
           set (adopted_tickets cfg es)))"
    using run_session_monotone [of es s cfg] run_session_watermark [of es cfg s] by blast
  have longer: "stays_loaded es' \<longrightarrow>
      lastLoggedTicket (fst (run_session cfg es s)) \<le>
        lastLoggedTicket (fst (run_session cfg (es @ es') s))"
    using run_session_monotone [of es' "fst (run_session cfg es s)" cfg]
    by (simp add: run_session_append)
  have fresh: "fst (run_session cfg (es @ Restarted health history # es') s) =
      fst (run_session cfg (Restarted health history # es') initial_state)"
    by (rule run_session_restarted)
  have restarted: "stays_loaded es' \<longrightarrow>
      lastLoggedTicket (fst (run_session cfg (es @ Restarted health history # es') s)) =
        Max (insert 0
          (set (reported_tickets
                 (snd (run_session cfg (Restarted health history # es') initial_state))) \<union>
           set (adopted_tickets cfg (Restarted health history # es'))))"
    using watermark_after_restart [of es' cfg health history initial_state]
    by (simp only: fresh) blast
  from loaded longer fresh restarted show ?thesis
    by blast
qed

lemma restart_run:
  "run_session default_config restart_events initial_state =
     (initial_state\<lparr>tickData := replicate 500 '''', isConnected := False, lastLoggedTicket := 9\<rparr>,
      [CloseReported (ea_order 3) False, NoNewClose])"
  by (simp add: restart_events_def initial_state_def OnTrade_def OnInit_def ea_order_def
      default_config_def SendHttpRequest_web_failed SendHttpRequest_web_ok ArrayResize_def
      tickBufferSize_def TestBackendConnection_def StringFind_def)

lemma reinit_run:
  "run_session default_config reinit_events initial_state =
     (initial_state\<lparr>tickData := replicate 500 '''', isConnected := False, lastLoggedTicket := 9\<rparr>,
      [CloseReported (ea_order 3) False, NoNewClose])"
  by (simp add: reinit_events_def initial_state_def OnTrade_def OnInit_def ea_order_def
      default_config_def SendHttpRequest_web_failed SendHttpRequest_web_ok ArrayResize_def
      tickBufferSize_def TestBackendConnection_def StringFind_def)

lemma second_restart_run:
  "fst (run_session default_config (restart_events @ [Restarted web_ok [Some (ea_order 3)]])
      initial_state) =
     initial_state\<lparr>tickData := replicate 500 '''', isConnected := False, lastLoggedTicket := 3\<rparr>"
  by (simp add: run_session_append initial_state_def OnInit_def ea_order_def
      default_config_def SendHttpRequest_web_ok ArrayResize_def
      tickBufferSize_def TestBackendConnection_def StringFind_def)

lemma OrderTicket_ea_order: "OrderTicket (ea_order ticket) = ticket"
  by (simp add: ea_order_def)

text \<open>
  C1 as stated fails: after the close of ticket 3 has been posted, a restart that finds
  ticket 9 in the history raises the watermark to 9, and ticket 9 is never posted. The
  watermark is then above the maximum ticket reported. A further restart, on a history
  that shows ticket 3 only, leaves the watermark at 3, below where it was.
\<close>

theorem watermark_above_reported:
  "reported_tickets (snd (run_session default_config restart_events initial_state)) = [3] \<and>
   lastLoggedTicket (fst (run_session default_config restart_events initial_state)) = 9 \<and>
   lastLoggedTicket (fst (run_session default_config restart_events initial_state)) \<noteq>
     Max (set (reported_tickets (snd (run_session default_config restart_events initial_state)))) \<and>
   lastLoggedTicket
     (fst (run_session default_config (restart_events @ [Restarted web_ok [Some (ea_order 3)]])
        initial_state)) = 3"
  by (simp add: restart_run second_restart_run OrderTicket_ea_order)

text \<open>
  The same events with the program re-initialised instead of loaded again: the
  watermark is the maximum of 0, the posted ticket 3 and the adopted tickets 3 and 9.
  After the restarts above it is the maximum of 0 and the ticket found at the last
  restart.
\<close>

theorem watermark_monotone_and_maximal_witness:
  "stays_loaded reinit_events \<and>
   lastLoggedTicket initial_state = 0 \<and>
   adopted_tickets default_config reinit_events = [3, 9] \<and>
   reported_tickets (snd (run_session default_config reinit_events initial_state)) = [3] \<and>
   lastLoggedTicket (fst (run_session default_config reinit_events initial_state)) =
     Max (insert 0 (set [3] \<union> set [3, 9])) \<and>
   lastLoggedTicket (fst (run_session default_config reinit_events initial_state)) = 9 \<and>
   stays_loaded [] \<and>
   lastLoggedTicket
     (fst (run_session default_config (restart_events @ [Restarted web_ok [Some (ea_order 3)]])
        initial_state)) =
     Max (insert 0 (set [] \<union> set [3])) \<and>
   lastLoggedTicket
     (fst (run_session default_config (restart_events @ [Restarted web_ok [Some (ea_order 3)]])
        initial_state)) = 3"
proof -
  let ?again = "Restarted web_ok [Some (ea_order 3)]"
  have loaded: "stays_loaded reinit_events"
    by (simp add: reinit_events_def)
  have nothing: "stays_loaded []"
    by simp
  have start: "lastLoggedTicket initial_state = 0"
    by (simp add: initial_state_def)
  have adopted: "adopted_tickets default_config reinit_events = [3, 9]"
    by (simp add: reinit_events_def ea_order_def default_config_def)
  have adopted_again: "adopted_tickets default_config [?again] = [3]"
    by (simp add: ea_order_def default_config_def)
  have reported:
    "reported_tickets (snd (run_session default_config reinit_events initial_state)) = [3]"
    by (simp add: reinit_run OrderTicket_ea_order)
  have reported_again:
    "reported_tickets (snd (run_session default_config [?again] initial_state)) = []"
    by simp
  have "lastLoggedTicket (fst (run_session default_config reinit_events initial_state)) =
      Max (insert (lastLoggedTicket initial_state)
        (set (reported_tickets (snd (run_session default_config reinit_events initial_state))) \<union>
         set (adopted_tickets default_config reinit_events)))"
    using loaded
      watermark_monotone_and_maximal
        [of reinit_events initial_state default_config "[]" web_ok "[Some (ea_order 3)]",
         THEN conjunct1]
    by simp
  then have formula:
    "lastLoggedTicket (fst (run_session default_config reinit_events initial_state)) =
       Max (insert 0 (set [3] \<union> set [3, 9]))"
    by (simp only: start adopted reported)
  have "lastLoggedTicket
      (fst (run_session default_config (restart_events @ [?again]) initial_state)) =
      Max (insert 0
        (set (reported_tickets (snd (run_session default_config [?again] initial_state))) \<union>
         set (adopted_tickets default_config [?again])))"
    using nothing
      watermark_monotone_and_maximal
        [of restart_events initial_state default_config "[]" web_ok "[Some (ea_order 3)]",
         THEN conjunct2, THEN conjunct2, THEN conjunct2]
    by (simp del: run_session.simps adopted_tickets.simps)
  then have formula_again:
    "lastLoggedTicket
       (fst (run_session default_config (restart_events @ [?again]) initial_state)) =
       Max (insert 0 (set [] \<union> set [3]))"
    by (simp only: adopted_again reported_again)
  show ?thesis
    using loaded start adopted reported formula formula_again
    by simp
qed

end
